theory Spec2Isabelle
  imports Complex_Main
begin

section \<open>Python values met by the two pipelines\<close>

text \<open>
  A Python float is a finite value, one of the two infinities, or NaN.  The finite
  values are read as reals: every double is a real number, so a statement about all
  \<open>Finite r\<close> covers every finite double.
\<close>

datatype pyfloat = Finite real | PosInf | NegInf | NotANumber

text \<open>
  A cell of a data frame read by \<open>pd.read_csv\<close>: text, an integer, a float or a
  boolean.  A blank CSV field is read as the float NaN.
\<close>

datatype cell = CStr string | CInt int | CFloat pyfloat | CBool bool

datatype error = ValueError | TypeError | OverflowError | AttributeError | AssertionError
  | KeyError | IndexError | ZeroDivisionError

text \<open>
  The built-in conversions between text and floats belong to the interpreter, not to
  the repository.  They are parameters of the model: \<open>float_of_str s = None\<close> stands
  for \<open>float(s)\<close> raising ValueError, \<open>str_of_float\<close> is \<open>str\<close> on a float and
  \<open>float_of_int\<close> is \<open>float\<close> on a 64-bit integer of a data frame.
\<close>

record builtins =
  float_of_str :: "string \<Rightarrow> pyfloat option"
  str_of_float :: "pyfloat \<Rightarrow> string"
  float_of_int :: "int \<Rightarrow> pyfloat"

definition pd_isna :: "cell \<Rightarrow> bool" where
  "pd_isna x = (x = CFloat NotANumber)"

definition pd_notna :: "cell \<Rightarrow> bool" where
  "pd_notna x = (\<not> pd_isna x)"

fun str_of_nat :: "nat \<Rightarrow> string" where
  "str_of_nat n =
     (if n < 10 then [char_of (48 + n)]
      else str_of_nat (n div 10) @ [char_of (48 + n mod 10)])"

definition str_of_int :: "int \<Rightarrow> string" where
  "str_of_int i = (if i < 0 then CHR ''-'' # str_of_nat (nat (- i)) else str_of_nat (nat i))"

text \<open>\<open>str(x)\<close>, which is also what an f-string writes for \<open>{x}\<close>.\<close>

definition py_str :: "builtins \<Rightarrow> cell \<Rightarrow> string" where
  "py_str py x =
     (case x of
        CStr s \<Rightarrow> s
      | CInt i \<Rightarrow> str_of_int i
      | CFloat f \<Rightarrow> str_of_float py f
      | CBool b \<Rightarrow> (if b then ''True'' else ''False''))"

text \<open>\<open>float(x)\<close> and \<open>int(f)\<close> with the exceptions they raise.\<close>

definition py_float :: "builtins \<Rightarrow> cell \<Rightarrow> error + pyfloat" where
  "py_float py x =
     (case x of
        CStr s \<Rightarrow> (case float_of_str py s of None \<Rightarrow> Inl ValueError | Some f \<Rightarrow> Inr f)
      | CInt i \<Rightarrow> Inr (float_of_int py i)
      | CFloat f \<Rightarrow> Inr f
      | CBool b \<Rightarrow> Inr (Finite (if b then 1 else 0)))"

definition trunc :: "real \<Rightarrow> int" where
  "trunc r = (if r < 0 then \<lceil>r\<rceil> else \<lfloor>r\<rfloor>)"

definition py_int :: "pyfloat \<Rightarrow> error + int" where
  "py_int f =
     (case f of
        Finite r \<Rightarrow> Inr (trunc r)
      | PosInf \<Rightarrow> Inl OverflowError
      | NegInf \<Rightarrow> Inl OverflowError
      | NotANumber \<Rightarrow> Inl ValueError)"

text \<open>\<open>try: ... except (ValueError, TypeError): return None\<close>; any other exception passes.\<close>

definition except_value_type :: "error + 'a \<Rightarrow> error + 'a option" where
  "except_value_type r =
     (case r of
        Inr v \<Rightarrow> Inr (Some v)
      | Inl e \<Rightarrow> (if e = ValueError \<or> e = TypeError then Inr None else Inl e))"

section \<open>The semantic mapper: generate\_ttl.py\<close>

subsection \<open>Utilities\<close>

datatype node = URIRef string | Literal cell "string option" "string option"

type_synonym triple = "node \<times> node \<times> node"

definition MOB :: string where "MOB = ''https://purl.org/mobility/ontology#''"
definition EX_NS :: string where "EX_NS = ''https://example.org/mobility/data/''"
definition GEO_NS :: string where "GEO_NS = ''http://www.opengis.net/ont/geosparql#''"
definition UNIT :: string where "UNIT = ''http://qudt.org/vocab/unit/''"
definition XSD :: string where "XSD = ''http://www.w3.org/2001/XMLSchema#''"
definition RDF :: string where "RDF = ''http://www.w3.org/1999/02/22-rdf-syntax-ns#''"
definition RDFS :: string where "RDFS = ''http://www.w3.org/2000/01/rdf-schema#''"

text \<open>\<open>NS.name\<close> and \<open>NS["name"]\<close> on an rdflib namespace.\<close>

definition ns_term :: "string \<Rightarrow> string \<Rightarrow> node" where
  "ns_term ns name = URIRef (ns @ name)"

text \<open>\<open>NS[key]\<close> with a cell as key: rdflib appends the key only when it is text.\<close>

definition ns_getitem :: "string \<Rightarrow> cell \<Rightarrow> node" where
  "ns_getitem ns key = URIRef (ns @ (case key of CStr s \<Rightarrow> s | _ \<Rightarrow> []))"

text \<open>\<open>Literal(v, datatype=XSD.t)\<close>.\<close>

definition typed :: "cell \<Rightarrow> string \<Rightarrow> node" where
  "typed v t = Literal v (Some (XSD @ t)) None"

definition plain :: "cell \<Rightarrow> node" where
  "plain v = Literal v None None"

text \<open>
  \<open>urllib.parse.quote(s, safe="")\<close> on the UTF-8 bytes of the text: letters, digits and
  \<open>_.-~\<close> stay, every other byte becomes \<open>%XX\<close>.
\<close>

definition always_safe :: string where
  "always_safe =
     ''ABCDEFGHIJKLMNOPQRSTUVWXYZabcdefghijklmnopqrstuvwxyz0123456789_.-~''"

definition hex_digit :: "nat \<Rightarrow> char" where
  "hex_digit n = ''0123456789ABCDEF'' ! (n mod 16)"

definition quote_char :: "char \<Rightarrow> string" where
  "quote_char c =
     (if c \<in> set always_safe then [c]
      else [CHR ''%'', hex_digit (of_char c div 16), hex_digit (of_char c)])"

definition quote :: "string \<Rightarrow> string" where
  "quote s = concat (map quote_char s)"

definition replace_char :: "char \<Rightarrow> char \<Rightarrow> string \<Rightarrow> string" where
  "replace_char a b s = map (\<lambda>c. if c = a then b else c) s"

definition to_uri :: "builtins \<Rightarrow> string \<Rightarrow> cell \<Rightarrow> node option" where
  "to_uri py base v =
     (if pd_isna v \<or> v = CStr [] then None
      else
        let safe_value =
              replace_char (CHR ''.'') (CHR ''-'')
                (replace_char (CHR '':'') (CHR ''-'')
                  (replace_char (CHR '' '') (CHR ''_'') (py_str py v)))
        in Some (URIRef (EX_NS @ base @ ''/'' @ quote safe_value)))"

definition safe_float :: "builtins \<Rightarrow> cell \<Rightarrow> error + pyfloat option" where
  "safe_float py x =
     (if pd_notna x \<and> x \<noteq> CStr [] then except_value_type (py_float py x)
      else Inr None)"

definition safe_int :: "builtins \<Rightarrow> cell \<Rightarrow> error + int option" where
  "safe_int py x =
     (if pd_notna x \<and> x \<noteq> CStr [] then
        except_value_type
          (case py_float py x of Inl e \<Rightarrow> Inl e | Inr f \<Rightarrow> py_int f)
      else Inr None)"

text \<open>
  \<open>str.lower\<close> and \<open>str.strip\<close> on ASCII text, which is what the boolean columns
  hold.
\<close>

definition lower_char :: "char \<Rightarrow> char" where
  "lower_char c =
     (let n = (of_char c :: nat) in if 65 \<le> n \<and> n \<le> 90 then char_of (n + 32) else c)"

definition is_space :: "char \<Rightarrow> bool" where
  "is_space c = (c \<in> set [CHR '' '', CHR 0x09, CHR 0x0A, CHR 0x0B, CHR 0x0C, CHR 0x0D,
                           CHR 0x1C, CHR 0x1D, CHR 0x1E, CHR 0x1F])"

definition strip :: "string \<Rightarrow> string" where
  "strip s = rev (dropWhile is_space (rev (dropWhile is_space s)))"

definition safe_bool :: "builtins \<Rightarrow> cell \<Rightarrow> bool option" where
  "safe_bool py x =
     (if pd_isna x then None
      else Some (strip (map lower_char (py_str py x)) \<in> set [''true'', ''1'', ''yes'', ''t'']))"

subsection \<open>Rows, statements and graphs\<close>

text \<open>
  A row of a data frame gives the cell of each column: \<open>row ''ZONE_ID''\<close> is
  \<open>row["ZONE_ID"]\<close>.  The input tables have fixed column names, so a row is total.
  A graph is the set of triples added so far.
\<close>

type_synonym row = "string \<Rightarrow> cell"

type_synonym graph = "triple set"

text \<open>
  The body of a row loop is a sequence of statements; each one adds triples with
  \<open>g.add\<close> or raises.  \<open>run_stmts\<close> gives the triples added up to the end of the body
  or up to the first exception, and that exception.
\<close>

fun run_stmts :: "(error + triple list) list \<Rightarrow> triple list \<times> error option" where
  "run_stmts [] = ([], None)"
| "run_stmts (Inl e # rest) = ([], Some e)"
| "run_stmts (Inr ts # rest) = (ts @ fst (run_stmts rest), snd (run_stmts rest))"

text \<open>\<open>v = parse(...)\<close> followed by \<open>if v is not None: g.add(...)\<close>.\<close>

definition when_some :: "error + 'a option \<Rightarrow> ('a \<Rightarrow> triple list) \<Rightarrow> error + triple list" where
  "when_some r f =
     (case r of
        Inl e \<Rightarrow> Inl e
      | Inr None \<Rightarrow> Inr []
      | Inr (Some v) \<Rightarrow> Inr (f v))"

text \<open>
  \<open>g.add\<close> with a term that \<open>to_uri\<close> has just built: rdflib asserts that each term is
  a node, so a \<open>None\<close> there raises.
\<close>

definition add_with :: "node option \<Rightarrow> (node \<Rightarrow> triple list) \<Rightarrow> error + triple list" where
  "add_with u f = (case u of None \<Rightarrow> Inl AssertionError | Some n \<Rightarrow> Inr (f n))"

text \<open>Truth value of what \<open>to_uri\<close> returns: \<open>None\<close> and the empty text are false.\<close>

definition truthy :: "node option \<Rightarrow> bool" where
  "truthy u = (case u of None \<Rightarrow> False | Some (URIRef s) \<Rightarrow> s \<noteq> [] | Some _ \<Rightarrow> True)"

text \<open>
  \<open>for _, row in df.iterrows(): ...\<close> over an empty graph: an exception in a row ends
  the function, which then returns no graph.
\<close>

fun run_rows :: "(row \<Rightarrow> triple list \<times> error option) \<Rightarrow> row list \<Rightarrow> graph \<Rightarrow> error + graph" where
  "run_rows body [] g = Inr g"
| "run_rows body (r # rs) g =
     (case snd (body r) of
        None \<Rightarrow> run_rows body rs (g \<union> set (fst (body r)))
      | Some e \<Rightarrow> Inl e)"

definition RDF_type :: node where "RDF_type = ns_term RDF ''type''"
definition RDFS_label :: node where "RDFS_label = ns_term RDFS ''label''"

subsection \<open>ZONE\_MAPPING\<close>

definition zone_mapping_body :: "row \<Rightarrow> node \<Rightarrow> triple list \<times> error option" where
  "zone_mapping_body r zone_uri =
     run_stmts
       [Inr [(zone_uri, RDF_type, ns_term MOB ''ServiceZone''),
             (zone_uri, ns_term MOB ''hasAreaCode'', plain (r ''AREA_CODE'')),
             (zone_uri, RDFS_label, plain (r ''SERVICE_ZONE''))]]"

text \<open>The identifier URIs a row needs, in the order the loop builds them.\<close>

definition zone_mapping_uris :: "builtins \<Rightarrow> row \<Rightarrow> node option list" where
  "zone_mapping_uris py r = [to_uri py ''zone'' (r ''ZONE_ID'')]"

definition zone_mapping_row :: "builtins \<Rightarrow> row \<Rightarrow> triple list \<times> error option" where
  "zone_mapping_row py r =
     (if \<not> list_all truthy (zone_mapping_uris py r) then ([], None)
      else case zone_mapping_uris py r of
             [Some z] \<Rightarrow> zone_mapping_body r z
           | _ \<Rightarrow> ([], Some AssertionError))"

definition process_zone_mapping :: "builtins \<Rightarrow> row list \<Rightarrow> error + graph" where
  "process_zone_mapping py df = run_rows (zone_mapping_row py) df {}"

subsection \<open>PLANNING\_CLEAN\<close>

definition planning_body ::
  "builtins \<Rightarrow> row \<Rightarrow> node \<Rightarrow> node \<Rightarrow> node \<Rightarrow> triple list \<times> error option" where
  "planning_body py r schedule_uri route_uri zone_uri =
     run_stmts
       [Inr [(schedule_uri, RDF_type, ns_term MOB ''Schedule''),
             (schedule_uri, ns_term MOB ''belongsToRoute'', route_uri),
             (schedule_uri, ns_term MOB ''appliesToZone'', zone_uri),
             (schedule_uri, ns_term MOB ''dayType'', plain (r ''DAY_TYPE'')),
             (schedule_uri, ns_term MOB ''scheduledTime'', typed (r ''SCHEDULED_TIME'') ''time'')],
        when_some (safe_int py (r ''FREQUENCY_MIN'')) (\<lambda>freq.
          [(schedule_uri, ns_term MOB ''frequencyMinutes'', typed (CInt freq) ''integer'')]),
        when_some (Inr (safe_bool py (r ''IS_PEAK_SCHEDULE''))) (\<lambda>is_peak.
          [(schedule_uri, ns_term MOB ''isPeakSchedule'', typed (CBool is_peak) ''boolean'')])]"

definition planning_uris :: "builtins \<Rightarrow> row \<Rightarrow> node option list" where
  "planning_uris py r =
     (let schedule_id = py_str py (r ''LINE_ID'') @ ''_'' @ py_str py (r ''ZONE_ID'') @ ''_''
                        @ py_str py (r ''DAY_TYPE'') @ ''_'' @ py_str py (r ''SCHEDULED_TIME'')
      in [to_uri py ''schedule'' (CStr schedule_id),
          to_uri py ''route'' (r ''LINE_ID''),
          to_uri py ''zone'' (r ''ZONE_ID'')])"

definition planning_row :: "builtins \<Rightarrow> row \<Rightarrow> triple list \<times> error option" where
  "planning_row py r =
     (if \<not> list_all truthy (planning_uris py r) then ([], None)
      else case planning_uris py r of
             [Some s, Some rt, Some z] \<Rightarrow> planning_body py r s rt z
           | _ \<Rightarrow> ([], Some AssertionError))"

definition process_planning_clean :: "builtins \<Rightarrow> row list \<Rightarrow> error + graph" where
  "process_planning_clean py df = run_rows (planning_row py) df {}"

subsection \<open>TRAFFIC\_CLEAN\<close>

text \<open>\<open>pd.notna(c) and c != ""\<close>.\<close>

definition present :: "cell \<Rightarrow> bool" where
  "present c = (pd_notna c \<and> c \<noteq> CStr [])"

definition traffic_body :: "builtins \<Rightarrow> row \<Rightarrow> node \<Rightarrow> node \<Rightarrow> triple list \<times> error option" where
  "traffic_body py r obs_uri zone_uri =
     run_stmts
       [Inr [(obs_uri, RDF_type, ns_term MOB ''TrafficObservation''),
             (obs_uri, ns_term MOB ''observedInZone'', zone_uri),
             (obs_uri, ns_term MOB ''observedAt'', typed (r ''TIMESTAMP'') ''dateTime'')],
        when_some (safe_float py (r ''AVERAGE_SPEED_KMH'')) (\<lambda>speed.
          [(obs_uri, ns_term MOB ''averageSpeed'', typed (CFloat speed) ''float''),
           (obs_uri, ns_term MOB ''speedUnit'', ns_term UNIT ''KiloM-PER-HR'')]),
        when_some (safe_int py (r ''TRAFFIC_VOLUME'')) (\<lambda>vol.
          [(obs_uri, ns_term MOB ''trafficVolume'', typed (CInt vol) ''integer'')]),
        when_some (safe_float py (r ''OCCUPANCY_RATE'')) (\<lambda>occ.
          [(obs_uri, ns_term MOB ''occupancyRate'', typed (CFloat occ) ''float'')]),
        Inr (if present (r ''CONGESTION_LEVEL'')
             then [(obs_uri, ns_term MOB ''congestionLevel'', ns_getitem MOB (r ''CONGESTION_LEVEL''))]
             else []),
        when_some (Inr (safe_bool py (r ''IS_CONGESTED''))) (\<lambda>is_cong.
          [(obs_uri, ns_term MOB ''isCongested'', typed (CBool is_cong) ''boolean'')])]"

definition traffic_uris :: "builtins \<Rightarrow> row \<Rightarrow> node option list" where
  "traffic_uris py r =
     (let obs_id = py_str py (r ''ZONE_ID'') @ ''_'' @ py_str py (r ''TIMESTAMP'')
      in [to_uri py ''traffic_obs'' (CStr obs_id), to_uri py ''zone'' (r ''ZONE_ID'')])"

definition traffic_row :: "builtins \<Rightarrow> row \<Rightarrow> triple list \<times> error option" where
  "traffic_row py r =
     (case traffic_uris py r of
        [obs_uri, zone_uri] \<Rightarrow>
          if \<not> truthy obs_uri \<or> \<not> truthy zone_uri then ([], None)
          else (case (obs_uri, zone_uri) of
                  (Some ob, Some z) \<Rightarrow> traffic_body py r ob z
                | _ \<Rightarrow> ([], Some AssertionError))
      | _ \<Rightarrow> ([], Some AssertionError))"

definition process_traffic_clean :: "builtins \<Rightarrow> row list \<Rightarrow> error + graph" where
  "process_traffic_clean py df = run_rows (traffic_row py) df {}"

subsection \<open>BUS\_GPS\_CLEAN\<close>

text \<open>\<open>delay_min > 0\<close> on a float: false for NaN.\<close>

definition float_gt_zero :: "pyfloat \<Rightarrow> bool" where
  "float_gt_zero f = (case f of Finite x \<Rightarrow> 0 < x | PosInf \<Rightarrow> True | NegInf \<Rightarrow> False | NotANumber \<Rightarrow> False)"

definition bus_body ::
  "builtins \<Rightarrow> row \<Rightarrow> string \<Rightarrow> string \<Rightarrow> node \<Rightarrow> node \<Rightarrow> node \<Rightarrow> node \<Rightarrow> triple list \<times> error option" where
  "bus_body py r event_time_iso trip_id trip_uri vehicle_uri route_uri zone_uri =
     run_stmts
       [Inr [(trip_uri, RDF_type, ns_term MOB ''Trip''),
             (trip_uri, ns_term MOB ''hasVehicle'', vehicle_uri),
             (trip_uri, ns_term MOB ''operatesOnRoute'', route_uri),
             (trip_uri, ns_term MOB ''observedInZone'', zone_uri),
             (trip_uri, ns_term MOB ''recordedAt'', typed (CStr event_time_iso) ''dateTime''),
             (vehicle_uri, RDF_type, ns_term MOB ''Vehicle''),
             (vehicle_uri, RDFS_label, plain (r ''BUS_ID''))],
        (case safe_float py (r ''LATITUDE'') of
           Inl e \<Rightarrow> Inl e
         | Inr lat \<Rightarrow>
            (case safe_float py (r ''LONGITUDE'') of
               Inl e \<Rightarrow> Inl e
             | Inr lon \<Rightarrow>
                (case (lat, lon) of
                   (Some la, Some lo) \<Rightarrow>
                     add_with (to_uri py ''point'' (CStr trip_id)) (\<lambda>point_uri.
                       [(trip_uri, ns_term MOB ''hasLocation'', point_uri),
                        (point_uri, RDF_type, ns_term GEO_NS ''Point''),
                        (point_uri, ns_term GEO_NS ''asWKT'',
                           Literal (CStr (''POINT('' @ str_of_float py lo @ '' '' @ str_of_float py la @ '')''))
                             (Some (GEO_NS @ ''wktLiteral'')) None)])
                 | _ \<Rightarrow> Inr []))),
        when_some (safe_float py (r ''SPEED_KMH'')) (\<lambda>speed.
          [(trip_uri, ns_term MOB ''instantaneousSpeed'', typed (CFloat speed) ''float''),
           (trip_uri, ns_term MOB ''speedUnit'', ns_term UNIT ''KiloM-PER-HR'')]),
        when_some (Inr (safe_bool py (r ''IS_DELAYED''))) (\<lambda>is_delayed.
          [(trip_uri, ns_term MOB ''isDelayed'', typed (CBool is_delayed) ''boolean'')]),
        (case safe_float py (r ''DELAY_MINUTES'') of
           Inl e \<Rightarrow> Inl e
         | Inr None \<Rightarrow> Inr []
         | Inr (Some delay_min) \<Rightarrow>
            if float_gt_zero delay_min then
              add_with (to_uri py ''delay_event'' (CStr trip_id)) (\<lambda>event_uri.
                [(trip_uri, ns_term MOB ''hasDelayEvent'', event_uri),
                 (event_uri, RDF_type, ns_term MOB ''DelayEvent''),
                 (event_uri, ns_term MOB ''delayMinutes'', typed (CFloat delay_min) ''float''),
                 (event_uri, ns_term MOB ''delayUnit'', ns_term UNIT ''MIN'')]
                @ (if present (r ''DELAY_CATEGORY'')
                   then [(event_uri, ns_term MOB ''delayCategory'', ns_getitem MOB (r ''DELAY_CATEGORY''))]
                   else []))
            else Inr [])]"

text \<open>
  \<open>row["EVENT_TIME"].replace(" ", "T")\<close> is a method of text only: on a blank cell
  (a float) or a number it raises AttributeError, before any URI is built.
\<close>

definition bus_trip_id :: "builtins \<Rightarrow> row \<Rightarrow> string \<Rightarrow> string" where
  "bus_trip_id py r event_time_iso = py_str py (r ''BUS_ID'') @ ''_'' @ event_time_iso"

definition bus_uris :: "builtins \<Rightarrow> row \<Rightarrow> string \<Rightarrow> node option list" where
  "bus_uris py r event_time_iso =
     [to_uri py ''trip'' (CStr (bus_trip_id py r event_time_iso)),
      to_uri py ''vehicle'' (r ''BUS_ID''),
      to_uri py ''route'' (r ''LINE_ID''),
      to_uri py ''zone'' (r ''ZONE_ID'')]"

definition bus_row :: "builtins \<Rightarrow> row \<Rightarrow> triple list \<times> error option" where
  "bus_row py r =
     (case r ''EVENT_TIME'' of
        CStr event_time \<Rightarrow>
          (let event_time_iso = replace_char (CHR '' '') (CHR ''T'') event_time @ ''Z'' in
           if \<not> list_all truthy (bus_uris py r event_time_iso) then ([], None)
           else case bus_uris py r event_time_iso of
                  [Some t, Some v, Some rt, Some z] \<Rightarrow>
                    bus_body py r event_time_iso (bus_trip_id py r event_time_iso) t v rt z
                | _ \<Rightarrow> ([], Some AssertionError))
      | _ \<Rightarrow> ([], Some AttributeError))"

definition process_bus_gps_clean :: "builtins \<Rightarrow> row list \<Rightarrow> error + graph" where
  "process_bus_gps_clean py df = run_rows (bus_row py) df {}"

subsection \<open>BUS\_PERFORMANCE\_HOURLY\<close>

definition performance_body ::
  "builtins \<Rightarrow> row \<Rightarrow> node \<Rightarrow> node \<Rightarrow> node \<Rightarrow> triple list \<times> error option" where
  "performance_body py r perf_uri route_uri zone_uri =
     run_stmts
       [Inr [(perf_uri, RDF_type, ns_term MOB ''AggregatedPerformance''),
             (perf_uri, ns_term MOB ''route'', route_uri),
             (perf_uri, ns_term MOB ''zone'', zone_uri),
             (perf_uri, ns_term MOB ''performanceDate'', typed (r ''EVENT_DATE'') ''date'')],
        when_some (safe_int py (r ''EVENT_HOUR'')) (\<lambda>hour.
          [(perf_uri, ns_term MOB ''performanceHour'', typed (CInt hour) ''integer'')]),
        when_some (safe_float py (r ''AVG_DELAY_MINUTES'')) (\<lambda>avg_delay.
          [(perf_uri, ns_term MOB ''averageDelayMinutes'', typed (CFloat avg_delay) ''float'')]),
        when_some (safe_float py (r ''MAX_DELAY_MINUTES'')) (\<lambda>max_delay.
          [(perf_uri, ns_term MOB ''maxDelayMinutes'', typed (CFloat max_delay) ''float'')]),
        when_some (safe_float py (r ''AVG_SPEED_KMH'')) (\<lambda>avg_speed.
          [(perf_uri, ns_term MOB ''averageSpeedKmh'', typed (CFloat avg_speed) ''float'')]),
        when_some (safe_float py (r ''DELAY_RATE_PCT'')) (\<lambda>delay_rate.
          [(perf_uri, ns_term MOB ''delayRatePercent'', typed (CFloat delay_rate) ''float'')])]"

definition performance_uris :: "builtins \<Rightarrow> row \<Rightarrow> node option list" where
  "performance_uris py r =
     (let perf_id = py_str py (r ''LINE_ID'') @ ''_'' @ py_str py (r ''ZONE_ID'') @ ''_''
                    @ py_str py (r ''EVENT_DATE'') @ ''_'' @ py_str py (r ''EVENT_HOUR'')
      in [to_uri py ''performance'' (CStr perf_id),
          to_uri py ''route'' (r ''LINE_ID''),
          to_uri py ''zone'' (r ''ZONE_ID'')])"

definition performance_row :: "builtins \<Rightarrow> row \<Rightarrow> triple list \<times> error option" where
  "performance_row py r =
     (if \<not> list_all truthy (performance_uris py r) then ([], None)
      else case performance_uris py r of
             [Some p, Some rt, Some z] \<Rightarrow> performance_body py r p rt z
           | _ \<Rightarrow> ([], Some AssertionError))"

definition process_bus_performance_hourly :: "builtins \<Rightarrow> row list \<Rightarrow> error + graph" where
  "process_bus_performance_hourly py df = run_rows (performance_row py) df {}"

section \<open>The dataset synthesizer: generate\_data.py\<close>

subsection \<open>The random module\<close>

text \<open>
  The state of the module-level generator is the stream of variates it will still
  produce.  \<open>random.seed(n)\<close> replaces it by the stream of seed \<open>n\<close>, a parameter of
  the model, so every theorem below holds for every stream the Mersenne Twister could
  produce.  Each draw takes the fractional part of the next variate, which lies in
  \<open>[0, 1)\<close>.  Python floats are modelled by reals.
\<close>

type_synonym rng = "nat \<Rightarrow> real"

record pylib =
  seed_stream :: "int \<Rightarrow> rng"
  math_exp :: "real \<Rightarrow> real"
  csv_text :: "string list \<Rightarrow> cell list list \<Rightarrow> string"

definition random :: "rng \<Rightarrow> real \<times> rng" where
  "random g = (frac (g 0), \<lambda>n. g (Suc n))"

definition uniform :: "real \<Rightarrow> real \<Rightarrow> rng \<Rightarrow> real \<times> rng" where
  "uniform a b g = (a + (b - a) * fst (random g), snd (random g))"

definition randbelow :: "nat \<Rightarrow> rng \<Rightarrow> nat \<times> rng" where
  "randbelow n g = (nat \<lfloor>fst (random g) * real n\<rfloor>, snd (random g))"

definition randint :: "int \<Rightarrow> int \<Rightarrow> rng \<Rightarrow> error + int \<times> rng" where
  "randint a b g =
     (if b < a then Inl ValueError
      else Inr (a + int (fst (randbelow (nat (b - a + 1)) g)), snd (randbelow (nat (b - a + 1)) g)))"

definition choice :: "'a list \<Rightarrow> rng \<Rightarrow> error + 'a \<times> rng" where
  "choice seq g =
     (if seq = [] then Inl IndexError
      else Inr (seq ! fst (randbelow (length seq) g), snd (randbelow (length seq) g)))"

text \<open>
  \<open>random.sample(population, k)\<close>: \<open>k\<close> picks without replacement, each one taking the
  element at a drawn position out of the pool that is left.
\<close>

fun sample_pool :: "'a list \<Rightarrow> nat \<Rightarrow> rng \<Rightarrow> 'a list \<times> rng" where
  "sample_pool pool 0 g = ([], g)"
| "sample_pool pool (Suc k) g =
     (let j = fst (randbelow (length pool) g);
          g1 = snd (randbelow (length pool) g);
          rest = sample_pool (take j pool @ drop (Suc j) pool) k g1
      in (pool ! j # fst rest, snd rest))"

definition sample :: "'a list \<Rightarrow> nat \<Rightarrow> rng \<Rightarrow> error + 'a list \<times> rng" where
  "sample population k g =
     (if length population < k then Inl ValueError else Inr (sample_pool population k g))"

subsection \<open>Dates and times\<close>

text \<open>
  A naive \<open>datetime\<close> is the number of seconds since 1970-01-01 00:00:00, and a
  \<open>timedelta\<close> a number of seconds.  The calendar is the proleptic Gregorian one.
\<close>

definition days_from_civil :: "int \<Rightarrow> int \<Rightarrow> int \<Rightarrow> int" where
  "days_from_civil y m d =
     (let y' = (if m \<le> 2 then y - 1 else y);
          era = y' div 400;
          yoe = y' - era * 400;
          doy = (153 * (if m > 2 then m - 3 else m + 9) + 2) div 5 + d - 1;
          doe = yoe * 365 + yoe div 4 - yoe div 100 + doy
      in era * 146097 + doe - 719468)"

definition civil_from_days :: "int \<Rightarrow> int \<times> int \<times> int" where
  "civil_from_days z0 =
     (let z = z0 + 719468;
          era = z div 146097;
          doe = z - era * 146097;
          yoe = (doe - doe div 1460 + doe div 36524 - doe div 146096) div 365;
          doy = doe - (365 * yoe + yoe div 4 - yoe div 100);
          mp = (5 * doy + 2) div 153;
          d = doy - (153 * mp + 2) div 5 + 1;
          m = (if mp < 10 then mp + 3 else mp - 9);
          y = yoe + era * 400 + (if m \<le> 2 then 1 else 0)
      in (y, m, d))"

definition datetime :: "int \<Rightarrow> int \<Rightarrow> int \<Rightarrow> int \<Rightarrow> int \<Rightarrow> int" where
  "datetime y m d hh mm = days_from_civil y m d * 86400 + hh * 3600 + mm * 60"

definition fmt_02d :: "nat \<Rightarrow> string" where
  "fmt_02d n = (if n < 10 then CHR ''0'' # str_of_nat n else str_of_nat n)"

definition fmt_04d :: "nat \<Rightarrow> string" where
  "fmt_04d n = replicate (4 - length (str_of_nat n)) (CHR ''0'') @ str_of_nat n"

text \<open>\<open>strftime\<close> with the formats \<open>%H:%M\<close>, \<open>%Y-%m-%d %H:%M\<close> and \<open>%Y-%m-%d %H:%M:%S\<close>.\<close>

definition strftime_HM :: "int \<Rightarrow> string" where
  "strftime_HM t =
     fmt_02d (nat ((t mod 86400) div 3600)) @ '':'' @ fmt_02d (nat ((t mod 3600) div 60))"

definition strftime_Ymd :: "int \<Rightarrow> string" where
  "strftime_Ymd t =
     (case civil_from_days (t div 86400) of
        (y, m, d) \<Rightarrow> fmt_04d (nat y) @ ''-'' @ fmt_02d (nat m) @ ''-'' @ fmt_02d (nat d))"

definition strftime_Ymd_HM :: "int \<Rightarrow> string" where
  "strftime_Ymd_HM t = strftime_Ymd t @ '' '' @ strftime_HM t"

definition strftime_Ymd_HMS :: "int \<Rightarrow> string" where
  "strftime_Ymd_HMS t = strftime_Ymd_HM t @ '':'' @ fmt_02d (nat (t mod 60))"

subsection \<open>Global configuration\<close>

definition SEED :: int where "SEED = 42"

definition ZONES :: "string list" where
  "ZONES = map (\<lambda>i. ''Z'' @ str_of_nat i) [1..<9]"

text \<open>
  The two synonym dictionaries, as association lists in insertion order.  The keys
  are the zones, which are distinct, so the first entry of a key is the only one.
\<close>

definition ZONE_TO_AREA_CODE :: "(string \<times> string) list" where
  "ZONE_TO_AREA_CODE = map (\<lambda>(idx, z). (z, ''A'' @ fmt_02d idx)) (zip [1..<Suc (length ZONES)] ZONES)"

definition ZONE_TO_SERVICE_ZONE :: "(string \<times> string) list" where
  "ZONE_TO_SERVICE_ZONE = map (\<lambda>z. (z, ''ServiceZone-'' @ z)) ZONES"

definition TRAFFIC_START :: int where "TRAFFIC_START = datetime 2025 3 10 7 0"
definition TRAFFIC_END :: int where "TRAFFIC_END = datetime 2025 3 10 12 40"
definition TRAFFIC_STEP_MIN :: int where "TRAFFIC_STEP_MIN = 5"

definition TRAFFIC_MISSING_RATE :: real where "TRAFFIC_MISSING_RATE = 0.03"
definition TRAFFIC_OUTLIER_RATE :: real where "TRAFFIC_OUTLIER_RATE = 0.01"

definition BUS_COUNT :: nat where "BUS_COUNT = 15"
definition BUS_POINTS_PER_BUS :: nat where "BUS_POINTS_PER_BUS = 120"
definition BUS_TIME_STEP_SEC :: int where "BUS_TIME_STEP_SEC = 60"
definition BUS_MISSING_DELAY_RATE :: real where "BUS_MISSING_DELAY_RATE = 0.02"

definition PLANNING_LINES :: nat where "PLANNING_LINES = 180"

subsection \<open>Helpers\<close>

definition clamp :: "'a::linorder \<Rightarrow> 'a \<Rightarrow> 'a \<Rightarrow> 'a" where
  "clamp x lo hi = max lo (min hi x)"

text \<open>
  \<open>dt_range\<close> yields while \<open>cur <= end\<close>; with a step that is not positive it never
  stops, which is the value \<open>None\<close> here.
\<close>

partial_function (option) dt_range :: "int \<Rightarrow> int \<Rightarrow> int \<Rightarrow> int list option" where
  "dt_range cur end step =
     (if cur \<le> end then Option.bind (dt_range (cur + step) end step) (\<lambda>rest. Some (cur # rest))
      else Some [])"

text \<open>\<open>d[k]\<close> on a dictionary and \<open>xs[i]\<close> on a list, with the exceptions they raise.\<close>

definition lookup :: "('k \<times> 'v) list \<Rightarrow> 'k \<Rightarrow> error + 'v" where
  "lookup d k = (case map_of d k of None \<Rightarrow> Inl KeyError | Some v \<Rightarrow> Inr v)"

definition bind_res :: "error + 'a \<Rightarrow> ('a \<Rightarrow> error + 'b) \<Rightarrow> error + 'b" where
  "bind_res m f = (case m of Inl e \<Rightarrow> Inl e | Inr v \<Rightarrow> f v)"

text \<open>\<open>round(x, nd)\<close>: to the nearest multiple of \<open>10^-nd\<close>, a tie going to the even one.\<close>

definition round_half_even :: "real \<Rightarrow> int" where
  "round_half_even x =
     (let f = \<lfloor>x\<rfloor>; d = x - of_int f
      in if d < 1/2 then f else if 1/2 < d then f + 1 else if even f then f else f + 1)"

definition py_round :: "real \<Rightarrow> nat \<Rightarrow> real" where
  "py_round x nd = of_int (round_half_even (x * 10 ^ nd)) / 10 ^ nd"

subsection \<open>Source 1: the traffic table\<close>

text \<open>
  A row of the table is the Python list
  \<open>[zone_id, timestamp, average_speed_kmh, traffic_volume, occupancy_rate]\<close>; a
  blanked field holds the empty text.
\<close>

definition zone_profile :: "(string \<times> real \<times> real \<times> real) list" where
  "zone_profile =
     [(''Z1'', 52, 140, 0.55), (''Z2'', 56, 120, 0.40), (''Z3'', 58, 110, 0.30),
      (''Z4'', 54, 130, 0.35), (''Z5'', 60, 90, 0.20), (''Z6'', 50, 150, 0.60),
      (''Z7'', 62, 75, 0.10), (''Z8'', 55, 115, 0.33)]"

definition peak_center :: int where "peak_center = datetime 2025 3 10 8 20"
definition peak_sigma_minutes :: real where "peak_sigma_minutes = 50"

text \<open>The body of the inner loop: one row, three draws.\<close>

definition traffic_point ::
  "pylib \<Rightarrow> real \<times> real \<times> real \<Rightarrow> string \<Rightarrow> int \<Rightarrow> rng \<Rightarrow> cell list \<times> rng" where
  "traffic_point lib prof z ts g =
     (case prof of (base_speed, base_vol, peak_strength) \<Rightarrow>
      let diff_min = \<bar>real_of_int (ts - peak_center)\<bar> / 60;
          peak_factor = math_exp lib (- (diff_min ^ 2) / (2 * peak_sigma_minutes ^ 2));
          speed = clamp (base_speed * (1 - peak_strength * peak_factor)
                         + fst (uniform (- 1.5) 1.5 g)) 8 80;
          g1 = snd (uniform (- 1.5) 1.5 g);
          volume = trunc (clamp (base_vol * (1 + 0.9 * peak_strength * peak_factor)
                                 + fst (uniform (- 8) 8 g1)) 20 450);
          g2 = snd (uniform (- 8) 8 g1);
          occ = clamp (0.18 + real_of_int volume / 500 + 0.25 * peak_strength * peak_factor
                       + fst (uniform (- 0.02) 0.02 g2)) 0.05 0.99;
          g3 = snd (uniform (- 0.02) 0.02 g2)
      in ([CStr z, CStr (strftime_Ymd_HM ts), CFloat (Finite (py_round speed 1)),
           CInt volume, CFloat (Finite (py_round occ 2))], g3))"

fun traffic_zone_rows ::
  "pylib \<Rightarrow> real \<times> real \<times> real \<Rightarrow> string \<Rightarrow> int list \<Rightarrow> rng \<Rightarrow> cell list list \<times> rng" where
  "traffic_zone_rows lib prof z [] g = ([], g)"
| "traffic_zone_rows lib prof z (ts # tss) g =
     (let p = traffic_point lib prof z ts g;
          rest = traffic_zone_rows lib prof z tss (snd p)
      in (fst p # fst rest, snd rest))"

fun traffic_rows :: "pylib \<Rightarrow> string list \<Rightarrow> int list \<Rightarrow> rng \<Rightarrow> error + cell list list \<times> rng" where
  "traffic_rows lib [] timestamps g = Inr ([], g)"
| "traffic_rows lib (z # zs) timestamps g =
     bind_res (lookup zone_profile z) (\<lambda>prof.
       let here = traffic_zone_rows lib prof z timestamps g in
       bind_res (traffic_rows lib zs timestamps (snd here)) (\<lambda>rest.
         Inr (fst here @ fst rest, snd rest)))"

text \<open>\<open>rows[i][j] = v\<close>, which raises IndexError outside the table or the row.\<close>

definition set_field :: "cell list list \<Rightarrow> nat \<Rightarrow> nat \<Rightarrow> cell \<Rightarrow> error + cell list list" where
  "set_field rows i j v =
     (if i < length rows \<and> j < length (rows ! i) then Inr (rows[i := (rows ! i)[j := v]])
      else Inl IndexError)"

text \<open>The loop over \<open>miss_indices\<close>: one draw per index, one field blanked.\<close>

fun inject_missing :: "nat list \<Rightarrow> cell list list \<Rightarrow> rng \<Rightarrow> error + cell list list \<times> rng" where
  "inject_missing [] rows g = Inr (rows, g)"
| "inject_missing (i # is) rows g =
     bind_res (if fst (random g) < 0.6 then set_field rows i 2 (CStr [])
               else set_field rows i 4 (CStr []))
       (\<lambda>rows'. inject_missing is rows' (snd (random g)))"

text \<open>The loop over \<open>out_indices\<close>: a speed from three fixed values, or an occupancy above 1.\<close>

definition outlier_value :: "rng \<Rightarrow> error + (nat \<times> cell) \<times> rng" where
  "outlier_value g =
     (if fst (random g) < 0.5 then
        bind_res (choice [2.0, 4.5, 120.0] (snd (random g))) (\<lambda>c.
          Inr ((2, CFloat (Finite (fst c))), snd c))
      else
        Inr ((4, CFloat (Finite (py_round (fst (uniform 1.01 1.10 (snd (random g)))) 2))),
             snd (uniform 1.01 1.10 (snd (random g)))))"

fun inject_outliers :: "nat list \<Rightarrow> cell list list \<Rightarrow> rng \<Rightarrow> error + cell list list \<times> rng" where
  "inject_outliers [] rows g = Inr (rows, g)"
| "inject_outliers (i # is) rows g =
     bind_res (outlier_value g) (\<lambda>w.
       bind_res (set_field rows i (fst (fst w)) (snd (fst w))) (\<lambda>rows'.
         inject_outliers is rows' (snd w)))"

text \<open>
  The local variables of \<open>generate_traffic_csv\<close> when it returns; \<open>generated\<close> is the
  value of \<open>rows\<close> after the generation loop, before anything is injected.
\<close>

record traffic_locals =
  generated :: "cell list list"
  rows :: "cell list list"
  total :: nat
  miss_count :: nat
  out_count :: nat
  miss_indices :: "nat list"
  out_indices :: "nat list"

definition traffic_header :: "string list" where
  "traffic_header = [''zone_id'', ''timestamp'', ''average_speed_kmh'', ''traffic_volume'', ''occupancy_rate'']"

text \<open>
  The outer \<open>option\<close> is \<open>None\<close> when the function does not return, which is what a
  time grid that never ends would cause.
\<close>

definition generate_traffic_locals :: "pylib \<Rightarrow> rng \<Rightarrow> (error + traffic_locals) option" where
  "generate_traffic_locals lib g0 =
     (let g = seed_stream lib SEED in
      map_option (\<lambda>timestamps.
          bind_res (traffic_rows lib ZONES timestamps g) (\<lambda>gen.
            let total = length (fst gen);
                miss_count = nat (trunc (real total * TRAFFIC_MISSING_RATE));
                out_count = nat (trunc (real total * TRAFFIC_OUTLIER_RATE))
            in
            bind_res (sample [0..<total] miss_count (snd gen)) (\<lambda>ms.
              bind_res (inject_missing (fst ms) (fst gen) (snd ms)) (\<lambda>m.
                bind_res (sample (filter (\<lambda>i. i \<notin> set (fst ms)) [0..<total]) out_count (snd m)) (\<lambda>os.
                  bind_res (inject_outliers (fst os) (fst m) (snd os)) (\<lambda>out.
                    Inr \<lparr>generated = fst gen, rows = fst out, total = total,
                         miss_count = miss_count, out_count = out_count,
                         miss_indices = fst ms, out_indices = fst os\<rparr>))))))
        (dt_range TRAFFIC_START TRAFFIC_END (TRAFFIC_STEP_MIN * 60)))"

text \<open>
  What the function leaves behind: the text written to \<open>traffic_data.csv\<close> and the
  row count it returns.  The \<open>csv\<close> module's rendering of a header and rows is a
  parameter.
\<close>

definition generate_traffic_csv :: "pylib \<Rightarrow> rng \<Rightarrow> (error + string \<times> nat) option" where
  "generate_traffic_csv lib g0 =
     map_option (\<lambda>res. bind_res res (\<lambda>st.
         Inr (csv_text lib traffic_header (rows st), total st)))
       (generate_traffic_locals lib g0)"

subsection \<open>Source 2: the bus points\<close>

definition lines :: "string list" where
  "lines = map (\<lambda>i. ''L'' @ str_of_nat i) [1..<9]"

definition line_zones :: "(string \<times> string list) list" where
  "line_zones =
     [(''L1'', [''Z1'', ''Z2'', ''Z4'']), (''L2'', [''Z6'', ''Z1'', ''Z8'']),
      (''L3'', [''Z3'', ''Z4'', ''Z5'']), (''L4'', [''Z7'', ''Z5'', ''Z8'']),
      (''L5'', [''Z2'', ''Z3'', ''Z6'']), (''L6'', [''Z8'', ''Z4'', ''Z1'']),
      (''L7'', [''Z5'', ''Z2'', ''Z7'']), (''L8'', [''Z6'', ''Z3'', ''Z8''])]"

definition zone_center :: "(string \<times> real \<times> real) list" where
  "zone_center =
     [(''Z1'', 33.590, - 7.620), (''Z2'', 33.600, - 7.610), (''Z3'', 33.585, - 7.605),
      (''Z4'', 33.575, - 7.615), (''Z5'', 33.565, - 7.600), (''Z6'', 33.610, - 7.630),
      (''Z7'', 33.555, - 7.625), (''Z8'', 33.595, - 7.595)]"

text \<open>The properties and the coordinates \<open>[lon, lat]\<close> of a GeoJSON feature.\<close>

record bus_feature =
  bus_id :: string
  line_id :: string
  area_code :: string
  timestamp :: string
  delay_minutes :: "int option"
  speed_kmh :: real
  coordinates :: "real \<times> real"

fun make_buses :: "nat list \<Rightarrow> rng \<Rightarrow> error + (string \<times> string) list \<times> rng" where
  "make_buses [] g = Inr ([], g)"
| "make_buses (b # bs) g =
     bind_res (choice lines g) (\<lambda>c.
       bind_res (make_buses bs (snd c)) (\<lambda>rest.
         Inr ((''BUS-'' @ fmt_02d b, fst c) # fst rest, snd rest)))"

text \<open>\<open>z in ("Z1", "Z6")\<close>.\<close>

definition congested :: "string \<Rightarrow> bool" where
  "congested z = (z = ''Z1'' \<or> z = ''Z6'')"

definition nth_res :: "'a list \<Rightarrow> nat \<Rightarrow> error + 'a" where
  "nth_res xs i = (if i < length xs then Inr (xs ! i) else Inl IndexError)"

text \<open>The body of the loop over \<open>k\<close>: one feature.\<close>

definition bus_point ::
  "string \<Rightarrow> string \<Rightarrow> string list \<Rightarrow> int \<Rightarrow> int \<Rightarrow> nat \<Rightarrow> rng \<Rightarrow> error + bus_feature \<times> rng" where
  "bus_point bus line zones_path t0 base_delay k g =
     (let ts = t0 + BUS_TIME_STEP_SEC * int k in
      if length zones_path = 0 then Inl ZeroDivisionError
      else
        let seg = (k div max 1 (BUS_POINTS_PER_BUS div length zones_path)) mod length zones_path in
        bind_res (nth_res zones_path seg) (\<lambda>z.
          bind_res (lookup zone_center z) (\<lambda>center.
            let lat = fst center + fst (uniform (- 0.0025) 0.0025 g);
                g1 = snd (uniform (- 0.0025) 0.0025 g);
                lon = snd center + fst (uniform (- 0.0025) 0.0025 g1);
                g2 = snd (uniform (- 0.0025) 0.0025 g1);
                speed = (if congested z then fst (uniform 8 20 (snd (uniform 18 35 g2)))
                         else fst (uniform 18 35 g2));
                g3 = (if congested z then snd (uniform 8 20 (snd (uniform 18 35 g2)))
                      else snd (uniform 18 35 g2));
                peak_bonus = (if datetime 2025 3 10 7 45 \<le> ts \<and> ts \<le> datetime 2025 3 10 9 0
                              then 3 else 0)
            in
            bind_res (if congested z then randint 2 7 g3 else randint (- 1) 3 g3) (\<lambda>inc.
              let delay = clamp (base_delay + peak_bonus + fst inc) 0 35;
                  delay_value = (if fst (random (snd inc)) < BUS_MISSING_DELAY_RATE then None
                                 else Some delay);
                  g4 = snd (random (snd inc))
              in
              bind_res (lookup ZONE_TO_AREA_CODE z) (\<lambda>code.
                Inr (\<lparr>bus_id = bus, line_id = line, area_code = code,
                       timestamp = strftime_Ymd_HMS ts, delay_minutes = delay_value,
                       speed_kmh = py_round speed 1,
                       coordinates = (py_round lon 6, py_round lat 6)\<rparr>, g4))))))"

fun bus_points ::
  "string \<Rightarrow> string \<Rightarrow> string list \<Rightarrow> int \<Rightarrow> int \<Rightarrow> nat list \<Rightarrow> rng \<Rightarrow> error + bus_feature list \<times> rng" where
  "bus_points bus line zones_path t0 base_delay [] g = Inr ([], g)"
| "bus_points bus line zones_path t0 base_delay (k # ks) g =
     bind_res (bus_point bus line zones_path t0 base_delay k g) (\<lambda>f.
       bind_res (bus_points bus line zones_path t0 base_delay ks (snd f)) (\<lambda>rest.
         Inr (fst f # fst rest, snd rest)))"

fun bus_features :: "(string \<times> string) list \<Rightarrow> rng \<Rightarrow> error + bus_feature list \<times> rng" where
  "bus_features [] g = Inr ([], g)"
| "bus_features ((bus, line) # buses) g =
     bind_res (lookup line_zones line) (\<lambda>zones_path.
       bind_res (randint 0 30 g) (\<lambda>off.
         let t0 = TRAFFIC_START + fst off * 60;
             base_delay = (if ''Z1'' \<in> set zones_path \<or> ''Z6'' \<in> set zones_path then 6 else 2)
         in
         bind_res (bus_points bus line zones_path t0 base_delay [0..<BUS_POINTS_PER_BUS] (snd off)) (\<lambda>here.
           bind_res (bus_features buses (snd here)) (\<lambda>rest.
             Inr (fst here @ fst rest, snd rest)))))"

text \<open>The list \<open>buses\<close> and the features of the collection written to \<open>bus_gps.geojson\<close>.\<close>

definition generate_bus_geojson ::
  "pylib \<Rightarrow> rng \<Rightarrow> error + (string \<times> string) list \<times> bus_feature list" where
  "generate_bus_geojson lib g0 =
     (let g = seed_stream lib (SEED + 1) in
      bind_res (make_buses [1..<Suc BUS_COUNT] g) (\<lambda>bs.
        bind_res (bus_features (fst bs) (snd bs)) (\<lambda>fs.
          Inr (fst bs, fst fs))))"

subsection \<open>Source 3: the planning text\<close>

definition day_types :: "string list" where
  "day_types = [''weekday'', ''weekend'']"

definition times :: "string list" where
  "times = map (\<lambda>i. strftime_HM (datetime 2025 3 10 7 0 + 10 * 60 * int i)) [0..<36]"

definition freq_options :: "nat list" where
  "freq_options = [6, 8, 10, 12, 15]"

text \<open>
  \<open>int(s)\<close> on ASCII text: blanks around, a sign, then digits, where single
  underscores may stand between digits; anything else raises ValueError.
\<close>

definition is_digit :: "char \<Rightarrow> bool" where
  "is_digit c = (48 \<le> (of_char c :: nat) \<and> (of_char c :: nat) \<le> 57)"

fun valid_digits :: "string \<Rightarrow> bool" where
  "valid_digits [] = False"
| "valid_digits [c] = is_digit c"
| "valid_digits (c # d # cs) =
     (is_digit c \<and> (if d = CHR ''_'' then valid_digits cs else valid_digits (d # cs)))"

definition digits_value :: "string \<Rightarrow> nat" where
  "digits_value s = foldl (\<lambda>acc c. 10 * acc + (of_char c - 48)) 0 (filter is_digit s)"

definition int_of_str :: "string \<Rightarrow> error + int" where
  "int_of_str s =
     (let t = strip s;
          neg = (t \<noteq> [] \<and> hd t = CHR ''-'');
          body = (if t \<noteq> [] \<and> (hd t = CHR ''-'' \<or> hd t = CHR ''+'') then tl t else t)
      in if valid_digits body
         then Inr (if neg then - int (digits_value body) else int (digits_value body))
         else Inl ValueError)"

text \<open>\<open>s.split(":")[0]\<close>: the text before the first colon.\<close>

definition before_colon :: "string \<Rightarrow> string" where
  "before_colon s = takeWhile (\<lambda>c. c \<noteq> CHR '':'') s"

text \<open>The body of the \<open>while\<close> loop: one record, six draws.\<close>

definition planning_record :: "rng \<Rightarrow> error + string \<times> rng" where
  "planning_record g =
     bind_res (choice lines g) (\<lambda>l.
     bind_res (choice ZONES (snd l)) (\<lambda>z.
     bind_res (lookup ZONE_TO_SERVICE_ZONE (fst z)) (\<lambda>service_zone.
     bind_res (choice day_types (snd z)) (\<lambda>d.
     bind_res (choice times (snd d)) (\<lambda>t.
     bind_res (int_of_str (before_colon (fst t))) (\<lambda>hh.
     bind_res (if fst d = ''weekday'' \<and> (7 \<le> hh \<and> hh \<le> 9) then choice [6, 8, 10] (snd t)
               else choice freq_options (snd t)) (\<lambda>f.
       let sep = (if fst (random (snd f)) < 0.85 then '' | '' else '' ; '');
           line = ''line_id='' @ fst l @ sep
                  @ ''service_zone='' @ service_zone @ sep
                  @ ''day_type='' @ fst d @ sep
                  @ ''scheduled_time='' @ fst t @ sep
                  @ ''frequency_min='' @ str_of_nat (fst f)
       in Inr (line, snd (random (snd f))))))))))"

text \<open>\<open>while len(records) < PLANNING_LINES\<close>; an exception in the body ends the loop.\<close>

function planning_loop :: "string list \<Rightarrow> rng \<Rightarrow> error + string list" where
  "planning_loop records g =
     (if length records < PLANNING_LINES then
        (case planning_record g of
           Inl e \<Rightarrow> Inl e
         | Inr p \<Rightarrow> planning_loop (records @ [fst p]) (snd p))
      else Inr records)"
  by pat_completeness auto
termination
  by (relation "measure (\<lambda>(records, g). PLANNING_LINES - length records)") auto

text \<open>The records written to \<open>planning.txt\<close>, one per line.\<close>

definition generate_planning_txt :: "pylib \<Rightarrow> rng \<Rightarrow> error + string list" where
  "generate_planning_txt lib g0 = planning_loop [] (seed_stream lib (SEED + 2))"

subsection \<open>The zone mapping table\<close>

fun generate_zone_mapping_rows :: "string list \<Rightarrow> error + string list list" where
  "generate_zone_mapping_rows [] = Inr []"
| "generate_zone_mapping_rows (z # zs) =
     bind_res (lookup ZONE_TO_AREA_CODE z) (\<lambda>a.
       bind_res (lookup ZONE_TO_SERVICE_ZONE z) (\<lambda>s.
         bind_res (generate_zone_mapping_rows zs) (\<lambda>rest. Inr ([z, a, s] # rest))))"

definition generate_zone_mapping :: "error + string list list" where
  "generate_zone_mapping = generate_zone_mapping_rows ZONES"

text \<open>
  Reading a zone back from its area code with the mapping table: the \<open>zone_id\<close> of
  the first row whose \<open>area_code\<close> is the given one.
\<close>

definition zone_of_area_code :: "string list list \<Rightarrow> string \<Rightarrow> string option" where
  "zone_of_area_code table code =
     (case filter (\<lambda>row. row ! 1 = code) table of [] \<Rightarrow> None | row # _ \<Rightarrow> Some (row ! 0))"

section \<open>Derived notions and concrete inputs\<close>

text \<open>The triples a row body has added when it ends or raises.\<close>

definition emitted :: "triple list \<times> error option \<Rightarrow> triple set" where
  "emitted out = set (fst out)"


text \<open>
  Reading a generated traffic row: which of its fields are blank, which fields
  differ from another row, and when a speed or an occupancy cell is a regular value
  or an outlier.  Regular speeds lie in \<open>[8, 80]\<close> and regular occupancies in
  \<open>[0.05, 0.99]\<close>, the bounds of the two \<open>clamp\<close> calls.
\<close>

definition blank_fields :: "cell list \<Rightarrow> nat list" where
  "blank_fields r = filter (\<lambda>j. r ! j = CStr []) [0..<length r]"

definition changed_fields :: "cell list \<Rightarrow> cell list \<Rightarrow> nat list" where
  "changed_fields r r' = filter (\<lambda>j. r ! j \<noteq> r' ! j) [0..<length r]"

definition speed_normal :: "cell \<Rightarrow> bool" where
  "speed_normal c = (case c of CFloat (Finite v) \<Rightarrow> 8 \<le> v \<and> v \<le> 80 | _ \<Rightarrow> False)"

definition speed_outlier :: "cell \<Rightarrow> bool" where
  "speed_outlier c = (case c of CFloat (Finite v) \<Rightarrow> v < 8 \<or> 80 < v | _ \<Rightarrow> False)"

definition occupancy_normal :: "cell \<Rightarrow> bool" where
  "occupancy_normal c = (case c of CFloat (Finite y) \<Rightarrow> 0.05 \<le> y \<and> y \<le> 0.99 | _ \<Rightarrow> False)"

definition occupancy_outlier :: "cell \<Rightarrow> bool" where
  "occupancy_outlier c = (case c of CFloat (Finite y) \<Rightarrow> 1.0 < y | _ \<Rightarrow> False)"

text \<open>
  A row as the generation loop appends it: five fields, none blank, speed and
  occupancy regular.
\<close>

definition normal_row :: "cell list \<Rightarrow> bool" where
  "normal_row r =
     (length r = 5 \<and> blank_fields r = [] \<and> speed_normal (r ! 2) \<and> occupancy_normal (r ! 4))"

text \<open>A row with an outlier in exactly one of the two fields that can hold one.\<close>

definition one_field_outlier :: "cell list \<Rightarrow> bool" where
  "one_field_outlier r = (speed_outlier (r ! 2) \<noteq> occupancy_outlier (r ! 4))"

text \<open>
  What the outlier loop may write: field 2 gets one of three fixed speeds, field 4 an
  occupancy in \<open>[1.01, 1.10]\<close>.
\<close>

definition outlier_cell :: "nat \<Rightarrow> cell \<Rightarrow> bool" where
  "outlier_cell j c =
     ((j = 2 \<and> (c = CFloat (Finite 2.0) \<or> c = CFloat (Finite 4.5) \<or> c = CFloat (Finite 120.0))) \<or>
      (j = 4 \<and> (case c of CFloat (Finite y) \<Rightarrow> 1.01 \<le> y \<and> y \<le> 1.10 | _ \<Rightarrow> False)))"

text \<open>A library for concrete runs: every variate is zero and \<open>exp\<close> is constant.\<close>

definition lib0 :: pylib where
  "lib0 = \<lparr>seed_stream = (\<lambda>n k. 0), math_exp = (\<lambda>x. 1), csv_text = (\<lambda>h rs. [])\<rparr>"

definition rng0 :: rng where
  "rng0 = (\<lambda>k. 1 / 2)"

text \<open>
  An interpreter for the concrete rows below: no text parses as a float, which is
  right for the texts used here.
\<close>

definition py0 :: builtins where
  "py0 = \<lparr>float_of_str = (\<lambda>s. None), str_of_float = (\<lambda>f. ''nan''),
          float_of_int = (\<lambda>i. Finite (of_int i))\<rparr>"

definition blank :: cell where "blank = CFloat NotANumber"

definition row_bus_delay :: row where
  "row_bus_delay =
     (\<lambda>c. blank)(''BUS_ID'' := CStr ''BUS-01'', ''EVENT_TIME'' := CStr ''2025-03-10 07:00:00'',
        ''LINE_ID'' := CStr ''L1'', ''ZONE_ID'' := CStr ''Z1'', ''DELAY_MINUTES'' := CFloat (Finite 5))"


definition row_bus_no_time :: row where
  "row_bus_no_time =
     (\<lambda>c. blank)(''BUS_ID'' := CStr ''BUS-02'', ''LINE_ID'' := CStr ''L1'', ''ZONE_ID'' := CStr ''Z1'')"

definition row_traffic_same_key :: row where
  "row_traffic_same_key =
     (\<lambda>c. blank)(''ZONE_ID'' := CStr ''Z1'', ''TIMESTAMP'' := CStr ''2025-03-10 07:00'',
        ''AVERAGE_SPEED_KMH'' := CFloat (Finite 42.5))"

definition row_plan_inf :: row where
  "row_plan_inf =
     (\<lambda>c. blank)(''LINE_ID'' := CStr ''L1'', ''ZONE_ID'' := CStr ''Z1'', ''DAY_TYPE'' := CStr ''weekday'',
        ''SCHEDULED_TIME'' := CStr ''07:30'', ''FREQUENCY_MIN'' := CFloat PosInf)"

definition row_traffic_bad_speed :: row where
  "row_traffic_bad_speed =
     (\<lambda>c. blank)(''ZONE_ID'' := CStr ''Z1'', ''TIMESTAMP'' := CStr ''2025-03-10 07:00'',
        ''AVERAGE_SPEED_KMH'' := CStr ''n/a'', ''TRAFFIC_VOLUME'' := CInt 120)"

section \<open>Properties of the semantic mapper\<close>

lemmas eval_defs = to_uri_def pd_isna_def py_str_def
  replace_char_def quote_def quote_char_def always_safe_def hex_digit_def EX_NS_def list_all_def
  truthy_def safe_float_def safe_int_def py_int_def safe_bool_def pd_notna_def except_value_type_def
  py_float_def when_some_def float_gt_zero_def add_with_def present_def RDF_type_def RDFS_label_def
  ns_term_def ns_getitem_def typed_def plain_def MOB_def RDF_def RDFS_def XSD_def UNIT_def
  GEO_NS_def blank_def py0_def

lemma truthy_None [simp]: "\<not> truthy None"
  by (simp add: truthy_def)


text \<open>The graph a table yields is the union of what its rows added.\<close>

lemma run_rows_graph:
  "run_rows body rs g = Inr g' \<Longrightarrow> g' = g \<union> (\<Union>r\<in>set rs. set (fst (body r)))"
  by (induction rs arbitrary: g) (auto split: option.splits)

lemma run_rows_skip:
  "body r = ([], None) \<Longrightarrow> run_rows body (r # rs) g = run_rows body rs g"
  by simp


text \<open>
  In each of the five row loops a required URI for which \<open>to_uri\<close> returns \<open>None\<close>
  makes the row add no triple; in the bus loop this is reached only when
  \<open>EVENT_TIME\<close> is text.
\<close>

lemma unresolved_uri_row_skipped:
  "(None \<in> set (zone_mapping_uris py r) \<longrightarrow> zone_mapping_row py r = ([], None)) \<and>
   (None \<in> set (planning_uris py r) \<longrightarrow> planning_row py r = ([], None)) \<and>
   (None \<in> set (traffic_uris py r) \<longrightarrow> traffic_row py r = ([], None)) \<and>
   (None \<in> set (performance_uris py r) \<longrightarrow> performance_row py r = ([], None)) \<and>
   (r ''EVENT_TIME'' = CStr t \<and>
    None \<in> set (bus_uris py r (replace_char (CHR '' '') (CHR ''T'') t @ ''Z''))
      \<longrightarrow> bus_row py r = ([], None))"
proof (intro conjI impI)
  show "zone_mapping_row py r = ([], None)" if "None \<in> set (zone_mapping_uris py r)"
    using that by (auto simp: zone_mapping_row_def zone_mapping_uris_def)
  show "planning_row py r = ([], None)" if "None \<in> set (planning_uris py r)"
    using that by (auto simp: planning_row_def planning_uris_def Let_def)
  show "traffic_row py r = ([], None)" if "None \<in> set (traffic_uris py r)"
    using that by (auto simp: traffic_row_def traffic_uris_def Let_def)
  show "performance_row py r = ([], None)" if "None \<in> set (performance_uris py r)"
    using that by (auto simp: performance_row_def performance_uris_def Let_def)
  show "bus_row py r = ([], None)"
    if "r ''EVENT_TIME'' = CStr t \<and>
        None \<in> set (bus_uris py r (replace_char (CHR '' '') (CHR ''T'') t @ ''Z''))"
    using that by (auto simp: bus_row_def bus_uris_def Let_def)
qed

text \<open>
  Claim C1.  The claim says that a row with a blank key field adds no triple and is
  skipped.  \<open>EVENT_TIME\<close> is a key field of the trip URI of a bus row, and the bus
  loop calls \<open>replace\<close> on it before any URI is built: on a blank cell, which is a
  float, that raises AttributeError.  The row is not skipped, the exception leaves
  \<open>process_bus_gps_clean\<close>, and the triples of the valid row before it are lost
  with the graph.
\<close>

theorem blank_event_time_raises:
  "row_bus_no_time ''EVENT_TIME'' = CFloat NotANumber \<and>
   bus_row py0 row_bus_no_time = ([], Some AttributeError) \<and>
   snd (bus_row py0 row_bus_delay) = None \<and>
   process_bus_gps_clean py0 [row_bus_delay] = Inr (emitted (bus_row py0 row_bus_delay)) \<and>
   (URIRef ''https://example.org/mobility/data/trip/BUS-01_2025-03-10T07-00-00Z'', RDF_type,
      ns_term MOB ''Trip'') \<in> emitted (bus_row py0 row_bus_delay) \<and>
   process_bus_gps_clean py0 [row_bus_delay, row_bus_no_time] = Inl AttributeError"
  by (simp add: process_bus_gps_clean_def emitted_def bus_row_def bus_body_def bus_uris_def
        bus_trip_id_def row_bus_delay_def row_bus_no_time_def eval_defs)

text \<open>
  Claim C4.  The claim says that a numeric field that fails to parse never lets an
  exception reach the caller.  \<open>safe_int\<close> catches ValueError and TypeError only: a
  \<open>FREQUENCY_MIN\<close> cell holding infinity converts to a float and then fails in
  \<open>int\<close> with OverflowError, which leaves \<open>process_planning_clean\<close>.
\<close>

theorem inf_frequency_raises:
  "safe_int py (row_plan_inf ''FREQUENCY_MIN'') = Inl OverflowError \<and>
   snd (planning_row py row_plan_inf) = Some OverflowError \<and>
   process_planning_clean py [row_plan_inf] = Inl OverflowError"
  by (simp add: process_planning_clean_def planning_row_def planning_body_def planning_uris_def
        row_plan_inf_def eval_defs)

text \<open>What a row body adds is among the triples of its statements that do not raise.\<close>

lemma run_stmts_subset:
  "set (fst (run_stmts stmts)) \<subseteq> (\<Union>st\<in>set stmts. case st of Inl e \<Rightarrow> {} | Inr ts \<Rightarrow> set ts)"
  by (induction stmts rule: run_stmts.induct) auto

lemma when_some_triples:
  "(case when_some x f of Inl e \<Rightarrow> {} | Inr ts \<Rightarrow> set ts)
     \<subseteq> (case x of Inr (Some v) \<Rightarrow> set (f v) | _ \<Rightarrow> {})"
  by (auto simp: when_some_def split: sum.splits option.splits)

text \<open>
  An \<open>averageSpeed\<close> triple among those of a traffic row has that row's observation
  as subject and the row's parsed speed as object.
\<close>

lemma average_speed_origin:
  assumes "(s, ns_term MOB ''averageSpeed'', ob) \<in> set (fst (traffic_row py r))"
  shows "traffic_uris py r ! 0 = Some s \<and>
         (\<exists>v. safe_float py (r ''AVERAGE_SPEED_KMH'') = Inr (Some v) \<and> ob = typed (CFloat v) ''float'')"
proof -
  let ?t = "(s, ns_term MOB ''averageSpeed'', ob)"
  obtain a b where u: "traffic_uris py r = [a, b]" by (simp add: traffic_uris_def Let_def)
  have ne: "fst (traffic_row py r) \<noteq> []" using assms by auto
  obtain obs zone where ab: "a = Some obs" "b = Some zone"
    using ne by (cases a; cases b) (auto simp: traffic_row_def u)
  have row: "traffic_row py r = traffic_body py r obs zone"
    using ne by (auto simp: traffic_row_def u ab split: if_splits)
  have p: "ns_term MOB ''averageSpeed'' \<noteq> RDF_type"
      "ns_term MOB ''averageSpeed'' \<noteq> ns_term MOB ''observedInZone''"
      "ns_term MOB ''averageSpeed'' \<noteq> ns_term MOB ''observedAt''"
      "ns_term MOB ''averageSpeed'' \<noteq> ns_term MOB ''speedUnit''"
      "ns_term MOB ''averageSpeed'' \<noteq> ns_term MOB ''trafficVolume''"
      "ns_term MOB ''averageSpeed'' \<noteq> ns_term MOB ''occupancyRate''"
      "ns_term MOB ''averageSpeed'' \<noteq> ns_term MOB ''congestionLevel''"
      "ns_term MOB ''averageSpeed'' \<noteq> ns_term MOB ''isCongested''"
    by (simp_all add: ns_term_def MOB_def RDF_type_def RDF_def)
  have "?t \<in> set (fst (traffic_body py r obs zone))" using assms row by simp
  then have "?t \<in> (\<Union>st\<in>set
       [Inr [(obs, RDF_type, ns_term MOB ''TrafficObservation''),
             (obs, ns_term MOB ''observedInZone'', zone),
             (obs, ns_term MOB ''observedAt'', typed (r ''TIMESTAMP'') ''dateTime'')],
        when_some (safe_float py (r ''AVERAGE_SPEED_KMH'')) (\<lambda>speed.
          [(obs, ns_term MOB ''averageSpeed'', typed (CFloat speed) ''float''),
           (obs, ns_term MOB ''speedUnit'', ns_term UNIT ''KiloM-PER-HR'')]),
        when_some (safe_int py (r ''TRAFFIC_VOLUME'')) (\<lambda>vol.
          [(obs, ns_term MOB ''trafficVolume'', typed (CInt vol) ''integer'')]),
        when_some (safe_float py (r ''OCCUPANCY_RATE'')) (\<lambda>occ.
          [(obs, ns_term MOB ''occupancyRate'', typed (CFloat occ) ''float'')]),
        Inr (if present (r ''CONGESTION_LEVEL'')
             then [(obs, ns_term MOB ''congestionLevel'', ns_getitem MOB (r ''CONGESTION_LEVEL''))]
             else []),
        when_some (Inr (safe_bool py (r ''IS_CONGESTED''))) (\<lambda>is_cong.
          [(obs, ns_term MOB ''isCongested'', typed (CBool is_cong) ''boolean'')])].
       case st of Inl e \<Rightarrow> {} | Inr ts \<Rightarrow> set ts)"
    using run_stmts_subset unfolding traffic_body_def by blast
  then have "?t \<in> (case when_some (safe_float py (r ''AVERAGE_SPEED_KMH'')) (\<lambda>speed.
          [(obs, ns_term MOB ''averageSpeed'', typed (CFloat speed) ''float''),
           (obs, ns_term MOB ''speedUnit'', ns_term UNIT ''KiloM-PER-HR'')])
        of Inl e \<Rightarrow> {} | Inr ts \<Rightarrow> set ts)"
    using p by (auto simp: when_some_def split: sum.splits option.splits if_splits)
  then have "?t \<in> (case safe_float py (r ''AVERAGE_SPEED_KMH'') of
        Inr (Some v) \<Rightarrow> set [(obs, ns_term MOB ''averageSpeed'', typed (CFloat v) ''float''),
           (obs, ns_term MOB ''speedUnit'', ns_term UNIT ''KiloM-PER-HR'')] | _ \<Rightarrow> {})"
    using when_some_triples by blast
  then have "s = obs \<and> (\<exists>v. safe_float py (r ''AVERAGE_SPEED_KMH'') = Inr (Some v) \<and>
       ob = typed (CFloat v) ''float'')"
    using p by (auto split: sum.splits option.splits)
  then show ?thesis using u ab by simp
qed

text \<open>
  Claim C5, as amended.  A traffic row whose two URIs resolve and whose
  \<open>AVERAGE_SPEED_KMH\<close> does not parse as a float adds the triple typing its
  observation as a \<open>TrafficObservation\<close> and adds no \<open>averageSpeed\<close> triple.  When the
  mapper returns a graph for a table that holds the row, the graph has the typing
  triple; and when no row of the table with the same observation URI has a speed
  that parses, the graph has no \<open>averageSpeed\<close> triple for the observation.
\<close>

theorem unparseable_speed_row_and_graph:
  assumes u: "traffic_uris py r = [Some obs_uri, Some zone_uri]"
    and f: "safe_float py (r ''AVERAGE_SPEED_KMH'') = Inr None"
  shows "(obs_uri, RDF_type, ns_term MOB ''TrafficObservation'') \<in> set (fst (traffic_row py r)) \<and>
   (\<forall>s ob. (s, ns_term MOB ''averageSpeed'', ob) \<notin> set (fst (traffic_row py r))) \<and>
   (\<forall>df g. process_traffic_clean py df = Inr g \<and> r \<in> set df \<longrightarrow>
       (obs_uri, RDF_type, ns_term MOB ''TrafficObservation'') \<in> g) \<and>
   (\<forall>df g. process_traffic_clean py df = Inr g \<and>
       (\<forall>r'\<in>set df. traffic_uris py r' ! 0 = Some obs_uri \<longrightarrow>
            safe_float py (r' ''AVERAGE_SPEED_KMH'') = Inr None) \<longrightarrow>
       (\<forall>ob. (obs_uri, ns_term MOB ''averageSpeed'', ob) \<notin> g))"
proof -
  have t: "truthy (Some obs_uri)" "truthy (Some zone_uri)"
    using u by (auto simp: traffic_uris_def Let_def to_uri_def truthy_def EX_NS_def split: if_splits)
  have row: "traffic_row py r = traffic_body py r obs_uri zone_uri"
    using u t by (simp add: traffic_row_def)
  have a: "(obs_uri, RDF_type, ns_term MOB ''TrafficObservation'') \<in> set (fst (traffic_row py r))"
    by (simp add: row traffic_body_def)
  have b: "\<forall>s ob. (s, ns_term MOB ''averageSpeed'', ob) \<notin> set (fst (traffic_row py r))"
    using average_speed_origin [of _ _ py r] f by auto
  have c: "\<forall>df g. process_traffic_clean py df = Inr g \<and> r \<in> set df \<longrightarrow>
       (obs_uri, RDF_type, ns_term MOB ''TrafficObservation'') \<in> g"
    using a by (auto simp: process_traffic_clean_def dest!: run_rows_graph)
  have d: "\<forall>df g. process_traffic_clean py df = Inr g \<and>
       (\<forall>r'\<in>set df. traffic_uris py r' ! 0 = Some obs_uri \<longrightarrow>
            safe_float py (r' ''AVERAGE_SPEED_KMH'') = Inr None) \<longrightarrow>
       (\<forall>ob. (obs_uri, ns_term MOB ''averageSpeed'', ob) \<notin> g)"
  proof (intro allI impI notI)
    fix df g ob
    assume h: "process_traffic_clean py df = Inr g \<and>
       (\<forall>r'\<in>set df. traffic_uris py r' ! 0 = Some obs_uri \<longrightarrow>
            safe_float py (r' ''AVERAGE_SPEED_KMH'') = Inr None)"
      and m: "(obs_uri, ns_term MOB ''averageSpeed'', ob) \<in> g"
    have "g = {} \<union> (\<Union>r\<in>set df. set (fst (traffic_row py r)))"
      using h run_rows_graph [of "traffic_row py" df "{}" g] by (simp add: process_traffic_clean_def)
    then obtain r' where r': "r' \<in> set df"
        "(obs_uri, ns_term MOB ''averageSpeed'', ob) \<in> set (fst (traffic_row py r'))"
      using m by auto
    have "traffic_uris py r' ! 0 = Some obs_uri \<and>
         (\<exists>v. safe_float py (r' ''AVERAGE_SPEED_KMH'') = Inr (Some v) \<and> ob = typed (CFloat v) ''float'')"
      using average_speed_origin [OF r'(2)] .
    then show False using h r'(1) by auto
  qed
  show ?thesis using a b c d by blast
qed

theorem unparseable_speed_row_and_graph_witness:
  "traffic_uris py0 row_traffic_bad_speed =
     [Some (URIRef ''https://example.org/mobility/data/traffic_obs/Z1_2025-03-10_07-00''),
      Some (URIRef ''https://example.org/mobility/data/zone/Z1'')] \<and>
   safe_float py0 (row_traffic_bad_speed ''AVERAGE_SPEED_KMH'') = Inr None \<and>
   process_traffic_clean py0 [row_traffic_bad_speed] =
     Inr (set (fst (traffic_row py0 row_traffic_bad_speed))) \<and>
   row_traffic_bad_speed \<in> set [row_traffic_bad_speed] \<and>
   (URIRef ''https://example.org/mobility/data/traffic_obs/Z1_2025-03-10_07-00'', RDF_type,
      ns_term MOB ''TrafficObservation'') \<in> set (fst (traffic_row py0 row_traffic_bad_speed)) \<and>
   (\<forall>ob. (URIRef ''https://example.org/mobility/data/traffic_obs/Z1_2025-03-10_07-00'',
      ns_term MOB ''averageSpeed'', ob) \<notin> set (fst (traffic_row py0 row_traffic_bad_speed)))"
proof -
  have u: "traffic_uris py0 row_traffic_bad_speed =
     [Some (URIRef ''https://example.org/mobility/data/traffic_obs/Z1_2025-03-10_07-00''),
      Some (URIRef ''https://example.org/mobility/data/zone/Z1'')]"
    by (simp add: traffic_uris_def row_traffic_bad_speed_def eval_defs)
  have f: "safe_float py0 (row_traffic_bad_speed ''AVERAGE_SPEED_KMH'') = Inr None"
    by (simp add: row_traffic_bad_speed_def eval_defs)
  have p: "process_traffic_clean py0 [row_traffic_bad_speed] =
     Inr (set (fst (traffic_row py0 row_traffic_bad_speed)))"
    by (simp add: process_traffic_clean_def traffic_row_def traffic_body_def traffic_uris_def
          row_traffic_bad_speed_def eval_defs)
  have q: "\<forall>r'\<in>set [row_traffic_bad_speed].
      traffic_uris py0 r' ! 0 =
        Some (URIRef ''https://example.org/mobility/data/traffic_obs/Z1_2025-03-10_07-00'') \<longrightarrow>
      safe_float py0 (r' ''AVERAGE_SPEED_KMH'') = Inr None"
    using f by simp
  note th = unparseable_speed_row_and_graph [OF u f]
  have a: "(URIRef ''https://example.org/mobility/data/traffic_obs/Z1_2025-03-10_07-00'', RDF_type,
      ns_term MOB ''TrafficObservation'') \<in> set (fst (traffic_row py0 row_traffic_bad_speed))"
    using th by blast
  have "\<forall>ob. (URIRef ''https://example.org/mobility/data/traffic_obs/Z1_2025-03-10_07-00'',
      ns_term MOB ''averageSpeed'', ob) \<notin> set (fst (traffic_row py0 row_traffic_bad_speed))"
    using th p q by blast
  then show ?thesis using u f p a by simp
qed

text \<open>
  Claim C5 as stated fails: with a second row of the same zone and timestamp whose
  speed parses, the graph has an \<open>averageSpeed\<close> triple for the observation of the
  row whose speed does not parse.
\<close>

theorem same_key_row_adds_average_speed:
  "traffic_uris py0 row_traffic_bad_speed =
     [Some (URIRef ''https://example.org/mobility/data/traffic_obs/Z1_2025-03-10_07-00''),
      Some (URIRef ''https://example.org/mobility/data/zone/Z1'')] \<and>
   safe_float py0 (row_traffic_bad_speed ''AVERAGE_SPEED_KMH'') = Inr None \<and>
   \<not> isl (process_traffic_clean py0 [row_traffic_bad_speed, row_traffic_same_key]) \<and>
   (URIRef ''https://example.org/mobility/data/traffic_obs/Z1_2025-03-10_07-00'',
      ns_term MOB ''averageSpeed'', typed (CFloat (Finite 42.5)) ''float'')
     \<in> projr (process_traffic_clean py0 [row_traffic_bad_speed, row_traffic_same_key])"
  by (simp add: process_traffic_clean_def traffic_row_def traffic_body_def traffic_uris_def
        row_traffic_bad_speed_def row_traffic_same_key_def eval_defs)




section \<open>Properties of the dataset synthesizer\<close>

subsection \<open>Draws\<close>

lemma random_range: "0 \<le> fst (random g) \<and> fst (random g) < 1"
  by (simp add: random_def frac_lt_1)

lemma randbelow_lt: "0 < n \<Longrightarrow> fst (randbelow n g) < n"
proof -
  assume n: "0 < n"
  let ?u = "fst (random g)"
  have u: "0 \<le> ?u" "?u < 1" using random_range by auto
  have "?u * real n < real n" using u n by simp
  then have "\<lfloor>?u * real n\<rfloor> < int n" by (simp add: floor_less_iff)
  moreover have "0 \<le> \<lfloor>?u * real n\<rfloor>" using u by simp
  ultimately show ?thesis by (simp add: randbelow_def nat_less_iff)
qed

lemma uniform_bounds: "a \<le> b \<Longrightarrow> a \<le> fst (uniform a b g) \<and> fst (uniform a b g) \<le> b"
proof -
  assume ab: "a \<le> b"
  let ?u = "fst (random g)"
  have u: "0 \<le> ?u" "?u < 1" using random_range by auto
  have 1: "0 \<le> (b - a) * ?u" using ab u by simp
  have "(b - a) * ?u \<le> (b - a) * 1" using ab u by (intro mult_left_mono) auto
  then show ?thesis using 1 by (simp add: uniform_def)
qed

lemma choice_ok: "seq \<noteq> [] \<Longrightarrow> \<exists>x g'. choice seq g = Inr (x, g') \<and> x \<in> set seq"
  using randbelow_lt [of "length seq" g] by (simp add: choice_def)

lemma sample_pool_props:
  "k \<le> length pool \<Longrightarrow> distinct pool \<Longrightarrow>
   length (fst (sample_pool pool k g)) = k \<and> distinct (fst (sample_pool pool k g)) \<and>
   set (fst (sample_pool pool k g)) \<subseteq> set pool"
proof (induction k arbitrary: pool g)
  case 0
  then show ?case by simp
next
  case (Suc k)
  let ?j = "fst (randbelow (length pool) g)"
  let ?g1 = "snd (randbelow (length pool) g)"
  let ?pool' = "take ?j pool @ drop (Suc ?j) pool"
  have len: "0 < length pool" using Suc.prems by (cases pool) auto
  have j: "?j < length pool" using randbelow_lt [OF len] .
  have l': "length ?pool' = length pool - 1" using j by simp
  have pool: "pool = take ?j pool @ pool ! ?j # drop (Suc ?j) pool"
    using j by (simp add: id_take_nth_drop)
  have d: "distinct (take ?j pool @ pool ! ?j # drop (Suc ?j) pool)"
    using Suc.prems(2) pool by simp
  have d': "distinct ?pool'" using d by simp
  have notin: "pool ! ?j \<notin> set ?pool'" using d by simp
  have sub: "set ?pool' \<subseteq> set pool"
    by (metis (no_types, lifting) Un_iff in_set_dropD in_set_takeD set_append subsetI)
  have k: "k \<le> length ?pool'" using Suc.prems(1) l' by simp
  note IH = Suc.IH [OF k d', of ?g1]
  show ?case using IH notin sub j by (auto simp: Let_def)
qed

lemma sample_ok:
  "k \<le> length pop \<Longrightarrow> distinct pop \<Longrightarrow>
   \<exists>xs g'. sample pop k g = Inr (xs, g') \<and> length xs = k \<and> distinct xs \<and> set xs \<subseteq> set pop"
  using sample_pool_props [of k pop g] by (cases "sample_pool pop k g") (auto simp: sample_def)

lemma timestamps_eval: "\<exists>ts. dt_range TRAFFIC_START TRAFFIC_END (TRAFFIC_STEP_MIN * 60) = Some ts \<and> length ts = 69"
  by (simp add: dt_range.simps TRAFFIC_START_def TRAFFIC_END_def TRAFFIC_STEP_MIN_def datetime_def days_from_civil_def)

subsection \<open>The traffic table\<close>

lemma round_half_even_bounds:
  "of_int a \<le> y \<Longrightarrow> y \<le> of_int b \<Longrightarrow> a \<le> round_half_even y \<and> round_half_even y \<le> b"
proof -
  assume a: "of_int a \<le> y" and b: "y \<le> of_int b"
  have fa: "a \<le> \<lfloor>y\<rfloor>" using a by (simp add: le_floor_iff)
  have fb: "\<lfloor>y\<rfloor> \<le> b" using b by (simp add: floor_le_iff) 
  have lo: "a \<le> round_half_even y" using fa by (auto simp: round_half_even_def Let_def)
  have hi: "round_half_even y \<le> b"
  proof (cases "y = of_int b")
    case True
    then show ?thesis by (simp add: round_half_even_def Let_def)
  next
    case False
    then have "y < of_int b" using b by simp
    then have "\<lfloor>y\<rfloor> < b" by (simp add: floor_less_iff)
    then show ?thesis by (auto simp: round_half_even_def Let_def)
  qed
  show ?thesis using lo hi by simp
qed

lemma py_round_bounds:
  "of_int a / 10 ^ nd \<le> x \<Longrightarrow> x \<le> of_int b / 10 ^ nd \<Longrightarrow>
   of_int a / 10 ^ nd \<le> py_round x nd \<and> py_round x nd \<le> of_int b / 10 ^ nd"
proof -
  assume a: "of_int a / 10 ^ nd \<le> x" and b: "x \<le> of_int b / 10 ^ nd"
  have p: "(0::real) < 10 ^ nd" by simp
  have a': "of_int a \<le> x * 10 ^ nd" using a p by (simp add: pos_divide_le_eq)
  have b': "x * 10 ^ nd \<le> of_int b" using b p by (simp add: pos_le_divide_eq)
  have r: "a \<le> round_half_even (x * 10 ^ nd) \<and> round_half_even (x * 10 ^ nd) \<le> b"
    using round_half_even_bounds [OF a' b'] .
  then have "(of_int a :: real) \<le> of_int (round_half_even (x * 10 ^ nd))"
       "(of_int (round_half_even (x * 10 ^ nd)) :: real) \<le> of_int b" by simp_all
  then show ?thesis using p by (simp add: py_round_def divide_le_cancel)
qed

lemma clamp_bounds: "lo \<le> hi \<Longrightarrow> lo \<le> clamp x lo hi \<and> clamp x lo hi \<le> hi"
  by (auto simp: clamp_def)

lemma speed_round: "8 \<le> x \<Longrightarrow> x \<le> 80 \<Longrightarrow> 8 \<le> py_round x 1 \<and> py_round x 1 \<le> 80"
  using py_round_bounds [of 80 1 x 800] by simp

lemma occ_round: "0.05 \<le> x \<Longrightarrow> x \<le> 0.99 \<Longrightarrow> 0.05 \<le> py_round x 2 \<and> py_round x 2 \<le> 0.99"
  using py_round_bounds [of 5 2 x 99] by simp

lemma occ_out_round: "1.01 \<le> x \<Longrightarrow> x \<le> 1.10 \<Longrightarrow> 1.01 \<le> py_round x 2 \<and> py_round x 2 \<le> 1.10"
  using py_round_bounds [of 101 2 x 110] by simp

lemma upt_5: "[0..<5] = [0, 1, 2, 3, 4]"
  by code_simp

lemma strftime_nonempty: "strftime_Ymd_HM ts \<noteq> []"
  by (simp add: strftime_Ymd_HM_def)

lemma traffic_point_normal: "z \<noteq> [] \<Longrightarrow> normal_row (fst (traffic_point lib prof z ts g))"
proof -
  assume z: "z \<noteq> []"
  obtain bs bv ps where prof: "prof = (bs, bv, ps)" by (cases prof) auto
  show ?thesis
    using z strftime_nonempty [of ts]
      speed_round clamp_bounds [of "8::real" 80] occ_round clamp_bounds [of "0.05::real" "0.99"]
    by (simp add: traffic_point_def prof Let_def normal_row_def speed_normal_def
          occupancy_normal_def blank_fields_def upt_5)
qed

lemma traffic_zone_rows_props:
  "z \<noteq> [] \<Longrightarrow>
   length (fst (traffic_zone_rows lib prof z tss g)) = length tss \<and>
   (\<forall>r \<in> set (fst (traffic_zone_rows lib prof z tss g)). normal_row r)"
  by (induction tss arbitrary: g) (auto simp: Let_def traffic_point_normal)

lemma traffic_rows_props:
  "\<forall>z \<in> set zs. z \<noteq> [] \<and> \<not> isl (lookup zone_profile z) \<Longrightarrow>
   \<exists>rs g'. traffic_rows lib zs tss g = Inr (rs, g') \<and> length rs = length zs * length tss \<and>
     (\<forall>r \<in> set rs. normal_row r)"
proof (induction zs arbitrary: g)
  case Nil
  then show ?case by simp
next
  case (Cons z zs)
  obtain p where p: "lookup zone_profile z = Inr p"
    using Cons.prems by (cases "lookup zone_profile z") auto
  have z: "z \<noteq> []" using Cons.prems by simp
  let ?here = "traffic_zone_rows lib p z tss g"
  have "\<forall>z \<in> set zs. z \<noteq> [] \<and> \<not> isl (lookup zone_profile z)" using Cons.prems by simp
  from Cons.IH [OF this, of "snd ?here"]
  obtain rs g' where rest: "traffic_rows lib zs tss (snd ?here) = Inr (rs, g')"
    "length rs = length zs * length tss" "\<forall>r \<in> set rs. normal_row r" by blast
  show ?case
    using traffic_zone_rows_props [OF z, of lib p tss g] rest
    by (auto simp: p bind_res_def Let_def)
qed

lemma ZONES_eval: "ZONES = [''Z1'', ''Z2'', ''Z3'', ''Z4'', ''Z5'', ''Z6'', ''Z7'', ''Z8'']"
  by code_simp

lemma zone_profiles_ok: "\<forall>z \<in> set ZONES. z \<noteq> [] \<and> \<not> isl (lookup zone_profile z)"
  by (simp add: ZONES_eval lookup_def zone_profile_def)

lemma set_field_ok:
  "i < length tbl \<Longrightarrow> j < length (tbl ! i) \<Longrightarrow>
   set_field tbl i j v = Inr (tbl[i := (tbl ! i)[j := v]])"
  by (simp add: set_field_def)

lemma all_len_update:
  "\<forall>r\<in>set tbl. length r = n \<Longrightarrow> i < length tbl \<Longrightarrow>
   \<forall>r\<in>set (tbl[i := (tbl ! i)[j := v]]). length r = n"
  by (metis (no_types, lifting) in_set_conv_nth length_list_update nth_list_update_eq
      nth_list_update_neq nth_mem)

lemma inject_missing_props:
  "distinct idx \<Longrightarrow> \<forall>i\<in>set idx. i < length tbl \<Longrightarrow> \<forall>r\<in>set tbl. length r = 5 \<Longrightarrow>
   \<exists>tbl' g'. inject_missing idx tbl g = Inr (tbl', g') \<and> length tbl' = length tbl \<and>
     (\<forall>i<length tbl.
        (i \<notin> set idx \<longrightarrow> tbl' ! i = tbl ! i) \<and>
        (i \<in> set idx \<longrightarrow> tbl' ! i = (tbl ! i)[2 := CStr []] \<or> tbl' ! i = (tbl ! i)[4 := CStr []]))"
proof (induction idx arbitrary: tbl g)
  case Nil
  then show ?case by simp
next
  case (Cons i idx)
  let ?j = "if fst (random g) < 0.6 then 2 else (4::nat)"
  let ?tbl1 = "tbl[i := (tbl ! i)[?j := CStr []]]"
  have i: "i < length tbl" using Cons.prems(2) by simp
  have li: "length (tbl ! i) = 5" using Cons.prems(3) i by simp
  have sf: "(if fst (random g) < 0.6 then set_field tbl i 2 (CStr [])
               else set_field tbl i 4 (CStr [])) = Inr ?tbl1"
    using i li by (simp add: set_field_def)
  have d: "distinct idx" and ni: "i \<notin> set idx" using Cons.prems(1) by simp_all
  have r1: "\<forall>k\<in>set idx. k < length ?tbl1" using Cons.prems(2) by simp
  have l1: "\<forall>r\<in>set ?tbl1. length r = 5" using all_len_update [OF Cons.prems(3) i] by blast
  from Cons.IH [OF d r1 l1, of "snd (random g)"]
  obtain tbl' g' where ih: "inject_missing idx ?tbl1 (snd (random g)) = Inr (tbl', g')"
     "length tbl' = length ?tbl1"
     "\<forall>k<length ?tbl1. (k \<notin> set idx \<longrightarrow> tbl' ! k = ?tbl1 ! k) \<and>
        (k \<in> set idx \<longrightarrow> tbl' ! k = (?tbl1 ! k)[2 := CStr []] \<or> tbl' ! k = (?tbl1 ! k)[4 := CStr []])"
    by blast
  have run: "inject_missing (i # idx) tbl g = Inr (tbl', g')"
    using sf ih(1) by (simp add: bind_res_def)
  have pt: "\<forall>k<length tbl.
        (k \<notin> set (i # idx) \<longrightarrow> tbl' ! k = tbl ! k) \<and>
        (k \<in> set (i # idx) \<longrightarrow> tbl' ! k = (tbl ! k)[2 := CStr []] \<or> tbl' ! k = (tbl ! k)[4 := CStr []])"
  proof (intro allI impI)
    fix k assume k: "k < length tbl"
    show "(k \<notin> set (i # idx) \<longrightarrow> tbl' ! k = tbl ! k) \<and>
        (k \<in> set (i # idx) \<longrightarrow> tbl' ! k = (tbl ! k)[2 := CStr []] \<or> tbl' ! k = (tbl ! k)[4 := CStr []])"
    proof (cases "k = i")
      case True
      then show ?thesis using ih(3) ni i by auto
    next
      case False
      then show ?thesis using ih(3) k by auto
    qed
  qed
  show ?case using run ih(2) pt by auto
qed

lemma outlier_value_ok:
  "\<exists>j c g'. outlier_value g = Inr ((j, c), g') \<and> outlier_cell j c"
proof (cases "fst (random g) < 0.5")
  case True
  obtain x g' where c: "choice [2.0, 4.5, 120.0 :: real] (snd (random g)) = Inr (x, g')"
      and x: "x \<in> set [2.0, 4.5, 120.0]"
    using choice_ok [of "[2.0, 4.5, 120.0 :: real]" "snd (random g)"] by auto
  have "outlier_value g = Inr ((2, CFloat (Finite x)), g')"
    using True c by (simp add: outlier_value_def bind_res_def)
  moreover have "outlier_cell 2 (CFloat (Finite x))"
    using x by (auto simp: outlier_cell_def)
  ultimately show ?thesis by blast
next
  case False
  show ?thesis
    using False uniform_bounds [of "1.01" "1.10" "snd (random g)"]
          occ_out_round [of "fst (uniform 1.01 1.10 (snd (random g)))"]
    by (simp add: outlier_value_def outlier_cell_def)
qed

lemma inject_outliers_props:
  "distinct idx \<Longrightarrow> \<forall>i\<in>set idx. i < length tbl \<Longrightarrow> \<forall>r\<in>set tbl. length r = 5 \<Longrightarrow>
   \<exists>tbl' g'. inject_outliers idx tbl g = Inr (tbl', g') \<and> length tbl' = length tbl \<and>
     (\<forall>i<length tbl.
        (i \<notin> set idx \<longrightarrow> tbl' ! i = tbl ! i) \<and>
        (i \<in> set idx \<longrightarrow> (\<exists>j c. outlier_cell j c \<and> tbl' ! i = (tbl ! i)[j := c])))"
proof (induction idx arbitrary: tbl g)
  case Nil
  then show ?case by simp
next
  case (Cons i idx)
  obtain j c g1 where ov: "outlier_value g = Inr ((j, c), g1)" and oc: "outlier_cell j c"
    using outlier_value_ok by blast
  have j5: "j < 5" using oc by (auto simp: outlier_cell_def)
  let ?tbl1 = "tbl[i := (tbl ! i)[j := c]]"
  have i: "i < length tbl" using Cons.prems(2) by simp
  have li: "length (tbl ! i) = 5" using Cons.prems(3) i by simp
  have sf: "set_field tbl i j c = Inr ?tbl1" using i li j5 by (simp add: set_field_def)
  have d: "distinct idx" and ni: "i \<notin> set idx" using Cons.prems(1) by simp_all
  have r1: "\<forall>k\<in>set idx. k < length ?tbl1" using Cons.prems(2) by simp
  have l1: "\<forall>r\<in>set ?tbl1. length r = 5" using all_len_update [OF Cons.prems(3) i] by blast
  from Cons.IH [OF d r1 l1, of g1]
  obtain tbl' g' where ih: "inject_outliers idx ?tbl1 g1 = Inr (tbl', g')"
     "length tbl' = length ?tbl1"
     "\<forall>k<length ?tbl1. (k \<notin> set idx \<longrightarrow> tbl' ! k = ?tbl1 ! k) \<and>
        (k \<in> set idx \<longrightarrow> (\<exists>j c. outlier_cell j c \<and> tbl' ! k = (?tbl1 ! k)[j := c]))"
    by blast
  have run: "inject_outliers (i # idx) tbl g = Inr (tbl', g')"
    using ov sf ih(1) by (simp add: bind_res_def)
  have pt: "\<forall>k<length tbl.
        (k \<notin> set (i # idx) \<longrightarrow> tbl' ! k = tbl ! k) \<and>
        (k \<in> set (i # idx) \<longrightarrow> (\<exists>j c. outlier_cell j c \<and> tbl' ! k = (tbl ! k)[j := c]))"
  proof (intro allI impI)
    fix k assume k: "k < length tbl"
    show "(k \<notin> set (i # idx) \<longrightarrow> tbl' ! k = tbl ! k) \<and>
        (k \<in> set (i # idx) \<longrightarrow> (\<exists>j c. outlier_cell j c \<and> tbl' ! k = (tbl ! k)[j := c]))"
    proof (cases "k = i")
      case True
      then show ?thesis using ih(3) ni i oc by auto
    next
      case False
      then have "tbl[i := (tbl ! i)[j := c]] ! k = tbl ! k" by simp
      then show ?thesis using ih(3) k False by (auto simp del: nth_list_update_neq) metis+
    qed
  qed
  show ?case using run ih(2) pt by auto
qed

lemma length_filter_notin:
  "distinct xs \<Longrightarrow> length xs - length ms \<le> length (filter (\<lambda>i. i \<notin> set ms) xs)"
proof -
  assume d: "distinct xs"
  have "length (filter (\<lambda>i. i \<notin> set ms) xs) = card ({x. x \<notin> set ms} \<inter> set xs)"
    using d by (rule distinct_length_filter)
  also have "{x. x \<notin> set ms} \<inter> set xs = set xs - set ms" by auto
  finally have e: "length (filter (\<lambda>i. i \<notin> set ms) xs) = card (set xs - set ms)" .
  have "card (set xs) - card (set ms) \<le> card (set xs - set ms)"
    by (simp add: diff_card_le_card_Diff)
  moreover have "card (set xs) = length xs" using d by (simp add: distinct_card)
  moreover have "card (set ms) \<le> length ms" by (simp add: card_length)
  ultimately show ?thesis using e by linarith
qed

lemma counts_eval:
  "nat (trunc (real (552::nat) * TRAFFIC_MISSING_RATE)) = 16"
  "nat (trunc (real (552::nat) * TRAFFIC_OUTLIER_RATE)) = 5"
proof -
  have a: "\<lfloor>real (552::nat) * TRAFFIC_MISSING_RATE\<rfloor> = 16"
    by (rule floor_unique) (simp_all add: TRAFFIC_MISSING_RATE_def)
  have b: "\<lfloor>real (552::nat) * TRAFFIC_OUTLIER_RATE\<rfloor> = 5"
    by (rule floor_unique) (simp_all add: TRAFFIC_OUTLIER_RATE_def)
  have pa: "\<not> real (552::nat) * TRAFFIC_MISSING_RATE < 0" by (simp add: TRAFFIC_MISSING_RATE_def)
  have pb: "\<not> real (552::nat) * TRAFFIC_OUTLIER_RATE < 0" by (simp add: TRAFFIC_OUTLIER_RATE_def)
  show "nat (trunc (real (552::nat) * TRAFFIC_MISSING_RATE)) = 16"
    unfolding trunc_def using pa a by simp
  show "nat (trunc (real (552::nat) * TRAFFIC_OUTLIER_RATE)) = 5"
    unfolding trunc_def using pb b by simp
qed

lemma generate_traffic_locals_char:
  "\<exists>st. generate_traffic_locals lib g0 = Some (Inr st) \<and>
     total st = 552 \<and> miss_count st = 16 \<and> out_count st = 5 \<and>
     length (generated st) = 552 \<and> length (rows st) = 552 \<and>
     (\<forall>r\<in>set (generated st). normal_row r) \<and>
     length (miss_indices st) = 16 \<and> distinct (miss_indices st) \<and>
     (\<forall>i\<in>set (miss_indices st). i < 552) \<and>
     length (out_indices st) = 5 \<and> distinct (out_indices st) \<and>
     (\<forall>i\<in>set (out_indices st). i < 552 \<and> i \<notin> set (miss_indices st)) \<and>
     (\<forall>i<552.
        (i \<notin> set (miss_indices st) \<and> i \<notin> set (out_indices st) \<longrightarrow> rows st ! i = generated st ! i) \<and>
        (i \<in> set (miss_indices st) \<longrightarrow>
           rows st ! i = (generated st ! i)[2 := CStr []] \<or> rows st ! i = (generated st ! i)[4 := CStr []]) \<and>
        (i \<in> set (out_indices st) \<longrightarrow>
           (\<exists>j c. outlier_cell j c \<and> rows st ! i = (generated st ! i)[j := c])))"
proof -
  let ?g = "seed_stream lib SEED"
  obtain ts where ts: "dt_range TRAFFIC_START TRAFFIC_END (TRAFFIC_STEP_MIN * 60) = Some ts"
      and lts: "length ts = 69"
    using timestamps_eval by blast
  obtain gen g1 where gen: "traffic_rows lib ZONES ts ?g = Inr (gen, g1)"
      and lgen: "length gen = length ZONES * length ts" and ngen: "\<forall>r\<in>set gen. normal_row r"
    using traffic_rows_props [OF zone_profiles_ok, of lib ts ?g] by blast
  have l552: "length gen = 552" using lgen lts by (simp add: ZONES_eval)
  have len5: "\<forall>r\<in>set gen. length r = 5" using ngen by (simp add: normal_row_def)
  let ?mc = "nat (trunc (real (length gen) * TRAFFIC_MISSING_RATE))"
  let ?oc = "nat (trunc (real (length gen) * TRAFFIC_OUTLIER_RATE))"
  have mc: "?mc = 16" and oc: "?oc = 5" using counts_eval by (simp_all only: l552)
  have "\<exists>xs g'. sample [0..<length gen] ?mc g1 = Inr (xs, g') \<and> length xs = ?mc \<and> distinct xs \<and>
          set xs \<subseteq> set [0..<length gen]"
  proof (rule sample_ok)
    show "?mc \<le> length [0..<length gen]" by (simp only: mc) (simp add: l552)
    show "distinct [0..<length gen]" by simp
  qed
  then obtain ms g2 where ms: "sample [0..<length gen] ?mc g1 = Inr (ms, g2)"
      and lms': "length ms = ?mc" and dms: "distinct ms" and sms: "set ms \<subseteq> set [0..<length gen]"
    by blast
  have lms: "length ms = 16" using lms' mc by simp
  have rms: "\<forall>i\<in>set ms. i < length gen" using sms by auto
  obtain m g3 where m: "inject_missing ms gen g2 = Inr (m, g3)" and lm: "length m = length gen"
      and pm: "\<forall>i<length gen.
        (i \<notin> set ms \<longrightarrow> m ! i = gen ! i) \<and>
        (i \<in> set ms \<longrightarrow> m ! i = (gen ! i)[2 := CStr []] \<or> m ! i = (gen ! i)[4 := CStr []])"
    using inject_missing_props [OF dms rms len5, of g2] by blast
  let ?pool = "filter (\<lambda>i. i \<notin> set ms) [0..<length gen]"
  have lp: "?oc \<le> length ?pool"
    using length_filter_notin [of "[0..<length gen]" ms] lms l552 oc by simp
  have dp: "distinct ?pool" by simp
  obtain os g4 where os: "sample ?pool ?oc g3 = Inr (os, g4)"
      and los': "length os = ?oc" and dos: "distinct os" and sos: "set os \<subseteq> set ?pool"
    using sample_ok [OF lp dp, of g3] by blast
  have los: "length os = 5" using los' oc by simp
  have disj: "\<forall>i\<in>set os. i < 552 \<and> i \<notin> set ms" using sos l552 by auto
  have ros: "\<forall>i\<in>set os. i < length m" using disj lm l552 by simp
  have m5: "\<forall>r\<in>set m. length r = 5"
  proof
    fix r assume "r \<in> set m"
    then obtain i where i: "i < length m" "r = m ! i" by (auto simp: in_set_conv_nth)
    then have ig: "i < length gen" using lm by simp
    then have "length (gen ! i) = 5" using len5 by simp
    then show "length r = 5" using pm ig i(2) by (cases "i \<in> set ms") auto
  qed
  obtain out g5 where out: "inject_outliers os m g4 = Inr (out, g5)" and lout: "length out = length m"
      and po: "\<forall>i<length m.
        (i \<notin> set os \<longrightarrow> out ! i = m ! i) \<and>
        (i \<in> set os \<longrightarrow> (\<exists>j c. outlier_cell j c \<and> out ! i = (m ! i)[j := c]))"
    using inject_outliers_props [OF dos ros m5, of g4] by blast
  define st where "st = \<lparr>generated = gen, rows = out, total = length gen, miss_count = ?mc,
               out_count = ?oc, miss_indices = ms, out_indices = os\<rparr>"
  have run: "generate_traffic_locals lib g0 = Some (Inr st)"
    by (simp only: generate_traffic_locals_def Let_def ts option.map gen bind_res_def sum.case
          fst_conv snd_conv ms m os out st_def)
  have f: "generated st = gen" "rows st = out" "total st = 552" "miss_count st = 16"
      "out_count st = 5" "miss_indices st = ms" "out_indices st = os"
    by (simp_all only: st_def traffic_locals.select_convs mc oc) (simp add: l552)
  have pt: "\<forall>i<552.
        (i \<notin> set ms \<and> i \<notin> set os \<longrightarrow> out ! i = gen ! i) \<and>
        (i \<in> set ms \<longrightarrow> out ! i = (gen ! i)[2 := CStr []] \<or> out ! i = (gen ! i)[4 := CStr []]) \<and>
        (i \<in> set os \<longrightarrow> (\<exists>j c. outlier_cell j c \<and> out ! i = (gen ! i)[j := c]))"
  proof (intro allI impI)
    fix i :: nat assume i: "i < 552"
    have ig: "i < length gen" "i < length m" using i l552 lm by simp_all
    show "(i \<notin> set ms \<and> i \<notin> set os \<longrightarrow> out ! i = gen ! i) \<and>
        (i \<in> set ms \<longrightarrow> out ! i = (gen ! i)[2 := CStr []] \<or> out ! i = (gen ! i)[4 := CStr []]) \<and>
        (i \<in> set os \<longrightarrow> (\<exists>j c. outlier_cell j c \<and> out ! i = (gen ! i)[j := c]))"
    proof (cases "i \<in> set os")
      case True
      then have nm: "i \<notin> set ms" using disj by blast
      then have "m ! i = gen ! i" using pm ig by simp
      moreover have "\<exists>j c. outlier_cell j c \<and> out ! i = (m ! i)[j := c]" using po ig True by simp
      ultimately show ?thesis using True nm by simp
    next
      case False
      then have "out ! i = m ! i" using po ig by simp
      then show ?thesis using pm ig False by simp
    qed
  qed
  have c1: "length (generated st) = 552" "length (rows st) = 552"
    using l552 lout lm by (simp_all add: f)
  have c2: "\<forall>r\<in>set (generated st). normal_row r" using ngen by (simp add: f)
  have c3: "length (miss_indices st) = 16" "distinct (miss_indices st)"
      "\<forall>i\<in>set (miss_indices st). i < 552"
    using lms dms rms l552 by (simp_all add: f)
  have c4: "length (out_indices st) = 5" "distinct (out_indices st)"
      "\<forall>i\<in>set (out_indices st). i < 552 \<and> i \<notin> set (miss_indices st)"
    using los dos disj by (simp_all add: f)
  have c5: "\<forall>i<552.
        (i \<notin> set (miss_indices st) \<and> i \<notin> set (out_indices st) \<longrightarrow> rows st ! i = generated st ! i) \<and>
        (i \<in> set (miss_indices st) \<longrightarrow>
           rows st ! i = (generated st ! i)[2 := CStr []] \<or> rows st ! i = (generated st ! i)[4 := CStr []]) \<and>
        (i \<in> set (out_indices st) \<longrightarrow>
           (\<exists>j c. outlier_cell j c \<and> rows st ! i = (generated st ! i)[j := c]))"
    using pt by (simp only: f)
  show ?thesis
    using run f(3,4,5) c1 c2 c3 c4 c5 by blast
qed

lemma length_5_explicit: "length r = 5 \<Longrightarrow> \<exists>a b c d e. r = [a, b, c, d, e]"
proof -
  assume "length r = 5"
  then have "length r = Suc (Suc (Suc (Suc (Suc 0))))" by simp
  then show ?thesis by (auto simp: length_Suc_conv)
qed

lemma normal_row_explicit:
  "normal_row r \<Longrightarrow>
   \<exists>a b v d y. r = [a, b, CFloat (Finite v), d, CFloat (Finite y)] \<and>
      a \<noteq> CStr [] \<and> b \<noteq> CStr [] \<and> d \<noteq> CStr [] \<and> 8 \<le> v \<and> v \<le> 80 \<and> 0.05 \<le> y \<and> y \<le> 0.99"
proof -
  assume n: "normal_row r"
  then have "length r = 5" by (simp add: normal_row_def)
  then obtain a b c d e where r: "r = [a, b, c, d, e]" using length_5_explicit by blast
  have bf: "blank_fields r = []" using n by (simp add: normal_row_def)
  have bl: "a \<noteq> CStr [] \<and> b \<noteq> CStr [] \<and> d \<noteq> CStr []"
    using bf by (simp add: r blank_fields_def upt_5 split: if_splits)
  have sn: "speed_normal c" using n by (simp add: normal_row_def r)
  have on: "occupancy_normal e" using n by (simp add: normal_row_def r)
  obtain v where c: "c = CFloat (Finite v)" "8 \<le> v" "v \<le> 80"
    using sn by (cases c; simp add: speed_normal_def; rename_tac f; case_tac f; simp)
  obtain y where e: "e = CFloat (Finite y)" "0.05 \<le> y" "y \<le> 0.99"
    using on by (cases e; simp add: occupancy_normal_def; rename_tac f; case_tac f; simp)
  show ?thesis using r bl c e by blast
qed

lemmas row_defs = blank_fields_def changed_fields_def one_field_outlier_def speed_outlier_def
  occupancy_outlier_def occupancy_normal_def speed_normal_def upt_5

lemma unchanged_row:
  assumes "normal_row r"
  shows "blank_fields r = [] \<and> \<not> one_field_outlier r \<and> occupancy_normal (r ! 4) \<and>
   r ! 4 \<noteq> CStr [] \<and> \<not> occupancy_outlier (r ! 4) \<and> changed_fields r r = []"
proof -
  obtain a b v d y where r: "r = [a, b, CFloat (Finite v), d, CFloat (Finite y)]"
    and ne: "a \<noteq> CStr []" "b \<noteq> CStr []" "d \<noteq> CStr []"
    and v: "8 \<le> v" "v \<le> 80" and y: "0.05 \<le> y" "y \<le> 0.99"
    using normal_row_explicit [OF assms] by blast
  show ?thesis using ne v y by (simp add: r row_defs)
qed

lemma blank2_row:
  assumes "normal_row r"
  shows "blank_fields (r[2 := CStr []]) = [2] \<and> \<not> one_field_outlier (r[2 := CStr []]) \<and>
   occupancy_normal (r[2 := CStr []] ! 4) \<and> r[2 := CStr []] ! 4 \<noteq> CStr [] \<and>
   \<not> occupancy_outlier (r[2 := CStr []] ! 4) \<and>
   changed_fields r (r[2 := CStr []]) = [2]"
proof -
  obtain a b v d y where r: "r = [a, b, CFloat (Finite v), d, CFloat (Finite y)]"
    and ne: "a \<noteq> CStr []" "b \<noteq> CStr []" "d \<noteq> CStr []"
    and v: "8 \<le> v" "v \<le> 80" and y: "0.05 \<le> y" "y \<le> 0.99"
    using normal_row_explicit [OF assms] by blast
  show ?thesis using ne v y by (simp add: r row_defs)
qed

lemma blank4_row:
  assumes "normal_row r"
  shows "blank_fields (r[4 := CStr []]) = [4] \<and> \<not> one_field_outlier (r[4 := CStr []]) \<and>
   r[4 := CStr []] ! 4 = CStr [] \<and> \<not> occupancy_normal (r[4 := CStr []] ! 4) \<and>
   \<not> occupancy_outlier (r[4 := CStr []] ! 4) \<and>
   changed_fields r (r[4 := CStr []]) = [4]"
proof -
  obtain a b v d y where r: "r = [a, b, CFloat (Finite v), d, CFloat (Finite y)]"
    and ne: "a \<noteq> CStr []" "b \<noteq> CStr []" "d \<noteq> CStr []"
    and v: "8 \<le> v" "v \<le> 80" and y: "0.05 \<le> y" "y \<le> 0.99"
    using normal_row_explicit [OF assms] by blast
  show ?thesis using ne v y by (simp add: r row_defs)
qed

lemma outlier_row:
  assumes "normal_row r" and oc: "outlier_cell j c"
  shows "blank_fields (r[j := c]) = [] \<and> one_field_outlier (r[j := c]) \<and>
   r[j := c] ! 4 \<noteq> CStr [] \<and>
   (occupancy_normal (r[j := c] ! 4) \<noteq> occupancy_outlier (r[j := c] ! 4)) \<and>
   (occupancy_outlier (r[j := c] ! 4) \<longleftrightarrow> j = 4) \<and>
   (changed_fields r (r[j := c]) = [2] \<or> changed_fields r (r[j := c]) = [4])"
proof -
  obtain a b v d y where r: "r = [a, b, CFloat (Finite v), d, CFloat (Finite y)]"
    and ne: "a \<noteq> CStr []" "b \<noteq> CStr []" "d \<noteq> CStr []"
    and v: "8 \<le> v" "v \<le> 80" and y: "0.05 \<le> y" "y \<le> 0.99"
    using normal_row_explicit [OF assms(1)] by blast
  from oc consider (speed) w where "j = 2" "c = CFloat (Finite w)" "w = 2 \<or> w = 4.5 \<or> w = 120"
    | (occ) z where "j = 4" "c = CFloat (Finite z)" "1.01 \<le> z" "z \<le> 1.10"
    by (cases c; simp add: outlier_cell_def; rename_tac f; case_tac f; auto)
  then show ?thesis
  proof cases
    case speed
    have w: "w < 8 \<or> 80 < w" "w \<noteq> v" using speed(3) v by auto
    show ?thesis using ne v y w by (simp add: r speed(1,2) row_defs)
  next
    case occ
    have z: "1 < z" "z \<noteq> y" "\<not> z \<le> 0.99" using occ(3) y by auto
    show ?thesis using ne v y z by (simp add: r occ(1,2) row_defs)
  qed
qed

lemma frame_update:
  "length r = 5 \<Longrightarrow> j = 2 \<or> j = 4 \<Longrightarrow>
   length (r[j := c]) = length r \<and> r[j := c] ! 0 = r ! 0 \<and> r[j := c] ! 1 = r ! 1 \<and> r[j := c] ! 3 = r ! 3"
  by auto

lemma outlier_cell_field: "outlier_cell j c \<Longrightarrow> j = 2 \<or> j = 4"
  by (auto simp: outlier_cell_def)

lemma count_by_index:
  "distinct idx \<Longrightarrow> \<forall>i\<in>set idx. i < length xs \<Longrightarrow> \<forall>i<length xs. P (xs ! i) \<longleftrightarrow> i \<in> set idx \<Longrightarrow>
   length (filter P xs) = length idx"
proof -
  assume d: "distinct idx" and r: "\<forall>i\<in>set idx. i < length xs"
     and p: "\<forall>i<length xs. P (xs ! i) \<longleftrightarrow> i \<in> set idx"
  have "{i. i < length xs \<and> P (xs ! i)} = set idx" using r p by auto
  then have "length (filter P xs) = card (set idx)" by (simp add: length_filter_conv_card)
  then show ?thesis using d by (simp add: distinct_card)
qed

lemma index_status:
  assumes n: "normal_row g"
    and c: "(\<not> inm \<and> \<not> ino \<and> r = g) \<or>
            (inm \<and> \<not> ino \<and> (r = g[2 := CStr []] \<or> r = g[4 := CStr []])) \<or>
            (ino \<and> \<not> inm \<and> (\<exists>j c. outlier_cell j c \<and> r = g[j := c]))"
  shows "(length (blank_fields r) = 1 \<longleftrightarrow> inm) \<and> (blank_fields r \<noteq> [] \<longleftrightarrow> inm) \<and>
         (one_field_outlier r \<longleftrightarrow> ino) \<and>
         ((r ! 4 = CStr [] \<and> inm \<and> \<not> occupancy_normal (r ! 4) \<and> \<not> occupancy_outlier (r ! 4)) \<or>
          (occupancy_normal (r ! 4) \<and> r ! 4 \<noteq> CStr [] \<and> \<not> occupancy_outlier (r ! 4)) \<or>
          (occupancy_outlier (r ! 4) \<and> ino \<and> r ! 4 \<noteq> CStr [] \<and> \<not> occupancy_normal (r ! 4))) \<and>
         length r = length g \<and> r ! 0 = g ! 0 \<and> r ! 1 = g ! 1 \<and> r ! 3 = g ! 3 \<and>
         (if inm \<or> ino then changed_fields g r = [2] \<or> changed_fields g r = [4] else r = g)"
proof -
  have l5: "length g = 5" using n by (simp add: normal_row_def)
  from c consider (same) "\<not> inm" "\<not> ino" "r = g"
    | (b2) "inm" "\<not> ino" "r = g[2 := CStr []]"
    | (b4) "inm" "\<not> ino" "r = g[4 := CStr []]"
    | (out) j c where "ino" "\<not> inm" "outlier_cell j c" "r = g[j := c]"
    by blast
  then show ?thesis
  proof cases
    case same
    show ?thesis using unchanged_row [OF n] same by simp
  next
    case b2
    show ?thesis using blank2_row [OF n] frame_update [OF l5, of 2 "CStr []"] b2 by simp
  next
    case b4
    show ?thesis using blank4_row [OF n] frame_update [OF l5, of 4 "CStr []"] b4
      by (simp add: occupancy_normal_def occupancy_outlier_def)
  next
    case out
    have j: "j = 2 \<or> j = 4" using out(3) by (rule outlier_cell_field)
    show ?thesis
      using outlier_row [OF n out(3)] frame_update [OF l5 j, of c] out(1,2,4) by auto
  qed
qed

lemma generate_traffic_locals_status:
  "\<exists>st. generate_traffic_locals lib g0 = Some (Inr st) \<and>
     total st = 552 \<and> miss_count st = 16 \<and> out_count st = 5 \<and>
     length (generated st) = 552 \<and> length (rows st) = 552 \<and>
     length (miss_indices st) = 16 \<and> distinct (miss_indices st) \<and>
     (\<forall>i\<in>set (miss_indices st). i < 552) \<and>
     length (out_indices st) = 5 \<and> distinct (out_indices st) \<and>
     (\<forall>i\<in>set (out_indices st). i < 552 \<and> i \<notin> set (miss_indices st)) \<and>
     (\<forall>i<552. normal_row (generated st ! i) \<and>
        ((i \<notin> set (miss_indices st) \<and> i \<notin> set (out_indices st) \<and> rows st ! i = generated st ! i) \<or>
         (i \<in> set (miss_indices st) \<and> i \<notin> set (out_indices st) \<and>
           (rows st ! i = (generated st ! i)[2 := CStr []] \<or> rows st ! i = (generated st ! i)[4 := CStr []])) \<or>
         (i \<in> set (out_indices st) \<and> i \<notin> set (miss_indices st) \<and>
           (\<exists>j c. outlier_cell j c \<and> rows st ! i = (generated st ! i)[j := c]))))"
proof -
  obtain st where run: "generate_traffic_locals lib g0 = Some (Inr st)"
    and a: "total st = 552" "miss_count st = 16" "out_count st = 5"
           "length (generated st) = 552" "length (rows st) = 552"
    and n: "\<forall>r\<in>set (generated st). normal_row r"
    and m: "length (miss_indices st) = 16" "distinct (miss_indices st)"
           "\<forall>i\<in>set (miss_indices st). i < 552"
    and ou: "length (out_indices st) = 5" "distinct (out_indices st)"
           "\<forall>i\<in>set (out_indices st). i < 552 \<and> i \<notin> set (miss_indices st)"
    and pt: "\<forall>i<552.
        (i \<notin> set (miss_indices st) \<and> i \<notin> set (out_indices st) \<longrightarrow> rows st ! i = generated st ! i) \<and>
        (i \<in> set (miss_indices st) \<longrightarrow>
           rows st ! i = (generated st ! i)[2 := CStr []] \<or> rows st ! i = (generated st ! i)[4 := CStr []]) \<and>
        (i \<in> set (out_indices st) \<longrightarrow>
           (\<exists>j c. outlier_cell j c \<and> rows st ! i = (generated st ! i)[j := c]))"
    using generate_traffic_locals_char [of lib g0] by blast
  have st: "\<forall>i<552. normal_row (generated st ! i) \<and>
        ((i \<notin> set (miss_indices st) \<and> i \<notin> set (out_indices st) \<and> rows st ! i = generated st ! i) \<or>
         (i \<in> set (miss_indices st) \<and> i \<notin> set (out_indices st) \<and>
           (rows st ! i = (generated st ! i)[2 := CStr []] \<or> rows st ! i = (generated st ! i)[4 := CStr []])) \<or>
         (i \<in> set (out_indices st) \<and> i \<notin> set (miss_indices st) \<and>
           (\<exists>j c. outlier_cell j c \<and> rows st ! i = (generated st ! i)[j := c])))"
  proof (intro allI impI)
    fix i :: nat assume i: "i < 552"
    have nr: "normal_row (generated st ! i)" using n a(4) i by simp
    have ex: "i \<in> set (out_indices st) \<longrightarrow> i \<notin> set (miss_indices st)" using ou(3) by blast
    show "normal_row (generated st ! i) \<and>
        ((i \<notin> set (miss_indices st) \<and> i \<notin> set (out_indices st) \<and> rows st ! i = generated st ! i) \<or>
         (i \<in> set (miss_indices st) \<and> i \<notin> set (out_indices st) \<and>
           (rows st ! i = (generated st ! i)[2 := CStr []] \<or> rows st ! i = (generated st ! i)[4 := CStr []])) \<or>
         (i \<in> set (out_indices st) \<and> i \<notin> set (miss_indices st) \<and>
           (\<exists>j c. outlier_cell j c \<and> rows st ! i = (generated st ! i)[j := c])))"
      using nr ex pt i by blast
  qed
  show ?thesis using run a m ou st by blast
qed

lemma floor_counts:
  "nat \<lfloor>real (552::nat) * TRAFFIC_MISSING_RATE\<rfloor> = 16"
  "nat \<lfloor>real (552::nat) * TRAFFIC_OUTLIER_RATE\<rfloor> = 5"
proof -
  have a: "\<lfloor>real (552::nat) * TRAFFIC_MISSING_RATE\<rfloor> = 16"
    by (rule floor_unique) (simp_all add: TRAFFIC_MISSING_RATE_def)
  have b: "\<lfloor>real (552::nat) * TRAFFIC_OUTLIER_RATE\<rfloor> = 5"
    by (rule floor_unique) (simp_all add: TRAFFIC_OUTLIER_RATE_def)
  show "nat \<lfloor>real (552::nat) * TRAFFIC_MISSING_RATE\<rfloor> = 16" using a by simp
  show "nat \<lfloor>real (552::nat) * TRAFFIC_OUTLIER_RATE\<rfloor> = 5" using b by simp
qed

text \<open>
  Claim C2.  The traffic generator returns with one row for each pair of a zone and a
  timestamp of the grid, 552 in all, none of them with a blank field or an outlier
  as generated.  After the two injections the rows with a blank field are exactly
  those at the missing indices and the rows with an outlier exactly those at the
  outlier indices; each such row has one such field; their numbers are
  \<open>floor(total * 0.03) = 16\<close> and \<open>floor(total * 0.01) = 5\<close>; both index lists have
  these lengths without repetition, they are disjoint, and the outlier indices come
  from the rows not chosen as missing.
\<close>

theorem traffic_injection_counts:
  "\<exists>st. generate_traffic_locals lib g0 = Some (Inr st) \<and>
     total st = 552 \<and>
     (\<exists>ts. dt_range TRAFFIC_START TRAFFIC_END (TRAFFIC_STEP_MIN * 60) = Some ts \<and>
           total st = length ZONES * length ts) \<and>
     length (generated st) = total st \<and>
     length (rows st) = total st \<and>
     filter (\<lambda>r. blank_fields r \<noteq> []) (generated st) = [] \<and>
     filter one_field_outlier (generated st) = [] \<and>
     {i. i < total st \<and> blank_fields (rows st ! i) \<noteq> []} = set (miss_indices st) \<and>
     {i. i < total st \<and> one_field_outlier (rows st ! i)} = set (out_indices st) \<and>
     length (filter (\<lambda>r. length (blank_fields r) = 1) (rows st))
       = nat \<lfloor>real (total st) * TRAFFIC_MISSING_RATE\<rfloor> \<and>
     length (filter (\<lambda>r. blank_fields r \<noteq> []) (rows st))
       = nat \<lfloor>real (total st) * TRAFFIC_MISSING_RATE\<rfloor> \<and>
     length (filter one_field_outlier (rows st))
       = nat \<lfloor>real (total st) * TRAFFIC_OUTLIER_RATE\<rfloor> \<and>
     nat \<lfloor>real (total st) * TRAFFIC_MISSING_RATE\<rfloor> = 16 \<and>
     nat \<lfloor>real (total st) * TRAFFIC_OUTLIER_RATE\<rfloor> = 5 \<and>
     length (miss_indices st) = nat \<lfloor>real (total st) * TRAFFIC_MISSING_RATE\<rfloor> \<and>
     distinct (miss_indices st) \<and>
     length (out_indices st) = nat \<lfloor>real (total st) * TRAFFIC_OUTLIER_RATE\<rfloor> \<and>
     distinct (out_indices st) \<and>
     set (miss_indices st) \<inter> set (out_indices st) = {} \<and>
     set (miss_indices st) \<subseteq> {0..<total st} \<and>
     set (out_indices st) \<subseteq> {0..<total st} - set (miss_indices st)"
proof -
  obtain st where run: "generate_traffic_locals lib g0 = Some (Inr st)"
    and t: "total st = 552" and lg: "length (generated st) = 552" and lr: "length (rows st) = 552"
    and m: "length (miss_indices st) = 16" "distinct (miss_indices st)"
           "\<forall>i\<in>set (miss_indices st). i < 552"
    and ou: "length (out_indices st) = 5" "distinct (out_indices st)"
           "\<forall>i\<in>set (out_indices st). i < 552 \<and> i \<notin> set (miss_indices st)"
    and pt: "\<forall>i<552. normal_row (generated st ! i) \<and>
        ((i \<notin> set (miss_indices st) \<and> i \<notin> set (out_indices st) \<and> rows st ! i = generated st ! i) \<or>
         (i \<in> set (miss_indices st) \<and> i \<notin> set (out_indices st) \<and>
           (rows st ! i = (generated st ! i)[2 := CStr []] \<or> rows st ! i = (generated st ! i)[4 := CStr []])) \<or>
         (i \<in> set (out_indices st) \<and> i \<notin> set (miss_indices st) \<and>
           (\<exists>j c. outlier_cell j c \<and> rows st ! i = (generated st ! i)[j := c])))"
    using generate_traffic_locals_status [of lib g0] by blast
  have s: "\<forall>i<length (rows st).
       (length (blank_fields (rows st ! i)) = 1 \<longleftrightarrow> i \<in> set (miss_indices st)) \<and>
       (blank_fields (rows st ! i) \<noteq> [] \<longleftrightarrow> i \<in> set (miss_indices st)) \<and>
       (one_field_outlier (rows st ! i) \<longleftrightarrow> i \<in> set (out_indices st))"
  proof (intro allI impI)
    fix i assume "i < length (rows st)"
    then have i: "i < 552" using lr by simp
    show "(length (blank_fields (rows st ! i)) = 1 \<longleftrightarrow> i \<in> set (miss_indices st)) \<and>
       (blank_fields (rows st ! i) \<noteq> [] \<longleftrightarrow> i \<in> set (miss_indices st)) \<and>
       (one_field_outlier (rows st ! i) \<longleftrightarrow> i \<in> set (out_indices st))"
      using index_status [of "generated st ! i" "i \<in> set (miss_indices st)"
          "i \<in> set (out_indices st)" "rows st ! i"] pt i
      by blast
  qed
  have mr: "\<forall>i\<in>set (miss_indices st). i < length (rows st)" using m(3) lr by simp
  have orr: "\<forall>i\<in>set (out_indices st). i < length (rows st)" using ou(3) lr by simp
  have c1: "length (filter (\<lambda>r. length (blank_fields r) = 1) (rows st)) = 16"
    using count_by_index [OF m(2) mr, of "\<lambda>r. length (blank_fields r) = 1"] s m(1) by simp
  have c2: "length (filter (\<lambda>r. blank_fields r \<noteq> []) (rows st)) = 16"
    using count_by_index [OF m(2) mr, of "\<lambda>r. blank_fields r \<noteq> []"] s m(1) by simp
  have c3: "length (filter one_field_outlier (rows st)) = 5"
    using count_by_index [OF ou(2) orr, of one_field_outlier] s ou(1) by simp
  have fm: "nat \<lfloor>real (total st) * TRAFFIC_MISSING_RATE\<rfloor> = 16"
    and fo: "nat \<lfloor>real (total st) * TRAFFIC_OUTLIER_RATE\<rfloor> = 5"
    using floor_counts by (simp_all only: t)
  have d: "set (miss_indices st) \<inter> set (out_indices st) = {}" using ou(3) by blast
  have sm: "set (miss_indices st) \<subseteq> {0..<total st}" using m(3) t by auto
  have so: "set (out_indices st) \<subseteq> {0..<total st} - set (miss_indices st)" using ou(3) t by auto
  have lt: "length (generated st) = total st" "length (rows st) = total st"
    using lr lg t by simp_all
  obtain ts where ts: "dt_range TRAFFIC_START TRAFFIC_END (TRAFFIC_STEP_MIN * 60) = Some ts"
      and lts: "length ts = 69"
    using timestamps_eval by blast
  have grid: "\<exists>ts. dt_range TRAFFIC_START TRAFFIC_END (TRAFFIC_STEP_MIN * 60) = Some ts \<and>
           total st = length ZONES * length ts"
    using ts lts t by (simp add: ZONES_eval)
  have gn: "\<forall>r\<in>set (generated st). blank_fields r = [] \<and> \<not> one_field_outlier r"
  proof
    fix r assume "r \<in> set (generated st)"
    then obtain i where "i < 552" "r = generated st ! i" using lg by (auto simp: in_set_conv_nth)
    then have "normal_row r" using pt by blast
    then show "blank_fields r = [] \<and> \<not> one_field_outlier r" using unchanged_row by blast
  qed
  have g1: "filter (\<lambda>r. blank_fields r \<noteq> []) (generated st) = []"
    using gn by (simp add: filter_empty_conv)
  have g2: "filter one_field_outlier (generated st) = []"
    using gn by (simp add: filter_empty_conv)
  have e1: "{i. i < total st \<and> blank_fields (rows st ! i) \<noteq> []} = set (miss_indices st)"
    using s m(3) lr t by auto
  have e2: "{i. i < total st \<and> one_field_outlier (rows st ! i)} = set (out_indices st)"
    using s ou(3) lr t by auto
  have k1: "length (filter (\<lambda>r. length (blank_fields r) = 1) (rows st))
       = nat \<lfloor>real (total st) * TRAFFIC_MISSING_RATE\<rfloor>" using c1 fm by simp
  have k2: "length (filter (\<lambda>r. blank_fields r \<noteq> []) (rows st))
       = nat \<lfloor>real (total st) * TRAFFIC_MISSING_RATE\<rfloor>" using c2 fm by simp
  have k3: "length (filter one_field_outlier (rows st))
       = nat \<lfloor>real (total st) * TRAFFIC_OUTLIER_RATE\<rfloor>" using c3 fo by simp
  have k4: "length (miss_indices st) = nat \<lfloor>real (total st) * TRAFFIC_MISSING_RATE\<rfloor>"
    using m(1) fm by simp
  have k5: "length (out_indices st) = nat \<lfloor>real (total st) * TRAFFIC_OUTLIER_RATE\<rfloor>"
    using ou(1) fo by simp
  show ?thesis
    using run t grid lt g1 g2 e1 e2 k1 k2 k3 fm fo k4 m(2) k5 ou(2) d sm so
    by (intro exI [of _ st] conjI)
qed

text \<open>
  Claim C3.  In every row of the generated table the occupancy cell is in exactly
  one of three states: blank, and then the row is at a missing index; a value in
  \<open>[0.05, 0.99]\<close>; or a value above 1.0, and then the row is at an outlier index.  The
  two index sets are disjoint, so no cell is both missing and an outlier.
\<close>

theorem occupancy_cell_classification:
  "\<exists>st. generate_traffic_locals lib g0 = Some (Inr st) \<and>
     length (rows st) = total st \<and> 0 < total st \<and>
     set (miss_indices st) \<inter> set (out_indices st) = {} \<and>
     (\<forall>i<total st.
        (rows st ! i ! 4 = CStr [] \<and> i \<in> set (miss_indices st) \<and>
           \<not> occupancy_normal (rows st ! i ! 4) \<and> \<not> occupancy_outlier (rows st ! i ! 4)) \<or>
        (occupancy_normal (rows st ! i ! 4) \<and> rows st ! i ! 4 \<noteq> CStr [] \<and>
           \<not> occupancy_outlier (rows st ! i ! 4)) \<or>
        (occupancy_outlier (rows st ! i ! 4) \<and> i \<in> set (out_indices st) \<and>
           rows st ! i ! 4 \<noteq> CStr [] \<and> \<not> occupancy_normal (rows st ! i ! 4)))"
proof -
  obtain st where run: "generate_traffic_locals lib g0 = Some (Inr st)"
    and t: "total st = 552" and lr: "length (rows st) = 552"
    and ou: "\<forall>i\<in>set (out_indices st). i < 552 \<and> i \<notin> set (miss_indices st)"
    and pt: "\<forall>i<552. normal_row (generated st ! i) \<and>
        ((i \<notin> set (miss_indices st) \<and> i \<notin> set (out_indices st) \<and> rows st ! i = generated st ! i) \<or>
         (i \<in> set (miss_indices st) \<and> i \<notin> set (out_indices st) \<and>
           (rows st ! i = (generated st ! i)[2 := CStr []] \<or> rows st ! i = (generated st ! i)[4 := CStr []])) \<or>
         (i \<in> set (out_indices st) \<and> i \<notin> set (miss_indices st) \<and>
           (\<exists>j c. outlier_cell j c \<and> rows st ! i = (generated st ! i)[j := c])))"
    using generate_traffic_locals_status [of lib g0] by blast
  have s: "\<forall>i<total st.
        (rows st ! i ! 4 = CStr [] \<and> i \<in> set (miss_indices st) \<and>
           \<not> occupancy_normal (rows st ! i ! 4) \<and> \<not> occupancy_outlier (rows st ! i ! 4)) \<or>
        (occupancy_normal (rows st ! i ! 4) \<and> rows st ! i ! 4 \<noteq> CStr [] \<and>
           \<not> occupancy_outlier (rows st ! i ! 4)) \<or>
        (occupancy_outlier (rows st ! i ! 4) \<and> i \<in> set (out_indices st) \<and>
           rows st ! i ! 4 \<noteq> CStr [] \<and> \<not> occupancy_normal (rows st ! i ! 4))"
  proof (intro allI impI)
    fix i assume "i < total st"
    then have i: "i < 552" using t by simp
    show "(rows st ! i ! 4 = CStr [] \<and> i \<in> set (miss_indices st) \<and>
           \<not> occupancy_normal (rows st ! i ! 4) \<and> \<not> occupancy_outlier (rows st ! i ! 4)) \<or>
        (occupancy_normal (rows st ! i ! 4) \<and> rows st ! i ! 4 \<noteq> CStr [] \<and>
           \<not> occupancy_outlier (rows st ! i ! 4)) \<or>
        (occupancy_outlier (rows st ! i ! 4) \<and> i \<in> set (out_indices st) \<and>
           rows st ! i ! 4 \<noteq> CStr [] \<and> \<not> occupancy_normal (rows st ! i ! 4))"
      using index_status [of "generated st ! i" "i \<in> set (miss_indices st)"
          "i \<in> set (out_indices st)" "rows st ! i"] pt i
      by blast
  qed
  have d: "set (miss_indices st) \<inter> set (out_indices st) = {}" using ou by blast
  show ?thesis using run lr t d s by auto
qed

theorem occupancy_cell_classification_witness:
  "\<exists>st. generate_traffic_locals lib0 rng0 = Some (Inr st) \<and> (0::nat) < total st \<and>
     ((rows st ! 0 ! 4 = CStr [] \<and> 0 \<in> set (miss_indices st) \<and>
           \<not> occupancy_normal (rows st ! 0 ! 4) \<and> \<not> occupancy_outlier (rows st ! 0 ! 4)) \<or>
        (occupancy_normal (rows st ! 0 ! 4) \<and> rows st ! 0 ! 4 \<noteq> CStr [] \<and>
           \<not> occupancy_outlier (rows st ! 0 ! 4)) \<or>
        (occupancy_outlier (rows st ! 0 ! 4) \<and> 0 \<in> set (out_indices st) \<and>
           rows st ! 0 ! 4 \<noteq> CStr [] \<and> \<not> occupancy_normal (rows st ! 0 ! 4)))"
  using occupancy_cell_classification [of lib0 rng0] by blast

text \<open>
  Claim C10.  The two injections leave \<open>zone_id\<close>, \<open>timestamp\<close> and \<open>traffic_volume\<close>
  of every row as generated; a row at a selected index differs from the generated row
  in exactly one field, the speed (field 2) or the occupancy (field 4); a row at any
  other index is the generated row.
\<close>

theorem injection_frame:
  "\<exists>st. generate_traffic_locals lib g0 = Some (Inr st) \<and>
     length (rows st) = length (generated st) \<and> length (generated st) = total st \<and> 0 < total st \<and>
     (\<forall>i<total st.
        length (rows st ! i) = length (generated st ! i) \<and>
        rows st ! i ! 0 = generated st ! i ! 0 \<and>
        rows st ! i ! 1 = generated st ! i ! 1 \<and>
        rows st ! i ! 3 = generated st ! i ! 3 \<and>
        (if i \<in> set (miss_indices st) \<or> i \<in> set (out_indices st)
         then changed_fields (generated st ! i) (rows st ! i) = [2] \<or>
              changed_fields (generated st ! i) (rows st ! i) = [4]
         else rows st ! i = generated st ! i))"
proof -
  obtain st where run: "generate_traffic_locals lib g0 = Some (Inr st)"
    and t: "total st = 552" and lg: "length (generated st) = 552" and lr: "length (rows st) = 552"
    and pt: "\<forall>i<552. normal_row (generated st ! i) \<and>
        ((i \<notin> set (miss_indices st) \<and> i \<notin> set (out_indices st) \<and> rows st ! i = generated st ! i) \<or>
         (i \<in> set (miss_indices st) \<and> i \<notin> set (out_indices st) \<and>
           (rows st ! i = (generated st ! i)[2 := CStr []] \<or> rows st ! i = (generated st ! i)[4 := CStr []])) \<or>
         (i \<in> set (out_indices st) \<and> i \<notin> set (miss_indices st) \<and>
           (\<exists>j c. outlier_cell j c \<and> rows st ! i = (generated st ! i)[j := c])))"
    using generate_traffic_locals_status [of lib g0] by blast
  have s: "\<forall>i<total st.
        length (rows st ! i) = length (generated st ! i) \<and>
        rows st ! i ! 0 = generated st ! i ! 0 \<and>
        rows st ! i ! 1 = generated st ! i ! 1 \<and>
        rows st ! i ! 3 = generated st ! i ! 3 \<and>
        (if i \<in> set (miss_indices st) \<or> i \<in> set (out_indices st)
         then changed_fields (generated st ! i) (rows st ! i) = [2] \<or>
              changed_fields (generated st ! i) (rows st ! i) = [4]
         else rows st ! i = generated st ! i)"
  proof (intro allI impI)
    fix i assume "i < total st"
    then have i: "i < 552" using t by simp
    have n: "normal_row (generated st ! i)" using pt i by blast
    have c: "(i \<notin> set (miss_indices st) \<and> i \<notin> set (out_indices st) \<and> rows st ! i = generated st ! i) \<or>
         (i \<in> set (miss_indices st) \<and> i \<notin> set (out_indices st) \<and>
           (rows st ! i = (generated st ! i)[2 := CStr []] \<or> rows st ! i = (generated st ! i)[4 := CStr []])) \<or>
         (i \<in> set (out_indices st) \<and> i \<notin> set (miss_indices st) \<and>
           (\<exists>j c. outlier_cell j c \<and> rows st ! i = (generated st ! i)[j := c]))"
      using pt i by blast
    show "length (rows st ! i) = length (generated st ! i) \<and>
        rows st ! i ! 0 = generated st ! i ! 0 \<and>
        rows st ! i ! 1 = generated st ! i ! 1 \<and>
        rows st ! i ! 3 = generated st ! i ! 3 \<and>
        (if i \<in> set (miss_indices st) \<or> i \<in> set (out_indices st)
         then changed_fields (generated st ! i) (rows st ! i) = [2] \<or>
              changed_fields (generated st ! i) (rows st ! i) = [4]
         else rows st ! i = generated st ! i)"
      using index_status [OF n c] by blast
  qed
  show ?thesis using run lr lg t s by auto
qed

theorem injection_frame_witness:
  "\<exists>st. generate_traffic_locals lib0 rng0 = Some (Inr st) \<and> (0::nat) < total st \<and>
        length (rows st ! 0) = length (generated st ! 0) \<and>
        rows st ! 0 ! 0 = generated st ! 0 ! 0 \<and>
        rows st ! 0 ! 1 = generated st ! 0 ! 1 \<and>
        rows st ! 0 ! 3 = generated st ! 0 ! 3 \<and>
        (if 0 \<in> set (miss_indices st) \<or> 0 \<in> set (out_indices st)
         then changed_fields (generated st ! 0) (rows st ! 0) = [2] \<or>
              changed_fields (generated st ! 0) (rows st ! 0) = [4]
         else rows st ! 0 = generated st ! 0)"
  using injection_frame [of lib0 rng0] by blast

text \<open>
  Claim C8.  The generator reseeds the random module first, so what it computes and
  the text it writes do not depend on the state the module was in: two runs give the
  same rows and the same file, and the run returns.
\<close>

theorem traffic_generation_deterministic:
  "generate_traffic_locals lib g1 = generate_traffic_locals lib g2 \<and>
   generate_traffic_csv lib g1 = generate_traffic_csv lib g2 \<and>
   (\<exists>text n. generate_traffic_csv lib g1 = Some (Inr (text, n)))"
proof -
  have a: "generate_traffic_locals lib g1 = generate_traffic_locals lib g2"
    by (simp add: generate_traffic_locals_def)
  have b: "generate_traffic_csv lib g1 = generate_traffic_csv lib g2"
    by (simp add: generate_traffic_csv_def a)
  obtain st where "generate_traffic_locals lib g1 = Some (Inr st)"
    using generate_traffic_locals_status [of lib g1] by blast
  then have c: "\<exists>text n. generate_traffic_csv lib g1 = Some (Inr (text, n))"
    by (simp add: generate_traffic_csv_def bind_res_def)
  show ?thesis using a b c by blast
qed

end
